theory Spec2Isabelle
  imports Complex_Main "HOL-Library.Word"
begin

section \<open>Platform\<close>

text \<open>
  Both sketches are written for the Arduino Uno (their header comments and INSTALL.md say
  so). On that board \<open>int\<close> has 16 bits, \<open>long\<close> and \<open>unsigned long\<close> have 32 bits, and
  arithmetic on them wraps around. \<open>float\<close> is modelled by \<open>real\<close>: rounding, infinities
  and NaN are outside the model.
\<close>

type_synonym int16 = "16 word"
type_synonym ulong = "32 word"

subsection \<open>Arduino \<open>String\<close> members used by the sketches\<close>

text \<open>
  A \<open>String\<close> knows its length and may hold NUL bytes (\<open>readStringUntil\<close> appends every
  byte it reads), but the members below hand its buffer to C string functions, which stop
  at the first NUL. \<open>c_str\<close> is what those functions see of a buffer.
\<close>

definition c_str :: "string \<Rightarrow> string" where
  "c_str s = takeWhile (\<lambda>c. c \<noteq> CHR 0x00) s"

text \<open>
  \<open>command == "IDENTITY"\<close> is \<open>String::equals(const char *)\<close>: an empty \<open>String\<close>
  equals only the empty C string, and otherwise the result is that of \<open>strcmp\<close>.
\<close>

definition equals :: "string \<Rightarrow> string \<Rightarrow> bool" where
  "equals s cstr = (if length s = 0 then c_str cstr = [] else c_str s = c_str cstr)"

text \<open>
  \<open>startsWith\<close> fails when the prefix is longer than the string and otherwise compares
  with \<open>strncmp\<close> over the length of the prefix. \<open>indexOf\<close> gives \<open>-1\<close> when the start
  index is not inside the string or \<open>strchr\<close> does not find the character before the
  first NUL. \<open>substring\<close> swaps its bounds when they are reversed, clips the right one,
  and copies the part between them as a C string.
\<close>

definition startsWith :: "string \<Rightarrow> string \<Rightarrow> bool" where
  "startsWith s p =
     (length p \<le> length s \<and> c_str (take (length p) s) = c_str p)"

fun strchr :: "char \<Rightarrow> string \<Rightarrow> nat option" where
  "strchr c [] = (if c = CHR 0x00 then Some 0 else None)"
| "strchr c (x # xs) =
     (if x = c then Some 0
      else if x = CHR 0x00 then None
      else map_option Suc (strchr c xs))"

definition indexOf :: "string \<Rightarrow> char \<Rightarrow> nat \<Rightarrow> int" where
  "indexOf s c fromIndex =
     (if length s \<le> fromIndex then - 1
      else case strchr c (drop fromIndex s) of
             None \<Rightarrow> - 1
           | Some k \<Rightarrow> int (fromIndex + k))"

definition substring :: "string \<Rightarrow> nat \<Rightarrow> nat \<Rightarrow> string" where
  "substring s left right =
     (let l = min left right; r = max left right
      in if length s \<le> l then []
         else c_str (take (min r (length s) - l) (drop l s)))"

definition substring_from :: "string \<Rightarrow> nat \<Rightarrow> string" where
  "substring_from s left = substring s left (length s)"

text \<open>
  \<open>toInt\<close> is C's \<open>atol\<close> and \<open>toFloat\<close> is C's \<open>atof\<close>: leading white space, an
  optional sign, then the longest prefix of digits; for \<open>toFloat\<close> also a fraction after
  a dot and a decimal exponent after \<open>e\<close> or \<open>E\<close>. The value is 0 when no digits are
  found. \<open>atof\<close> also reads the spellings INF and NAN and overflows to infinity; these
  results are not real numbers and are outside the model, which gives 0 for the
  spellings.
\<close>

definition isspace :: "char \<Rightarrow> bool" where
  "isspace c = (c = CHR '' '' \<or> (9 \<le> (of_char c :: nat) \<and> (of_char c :: nat) \<le> 13))"

definition isdigit :: "char \<Rightarrow> bool" where
  "isdigit c = (48 \<le> (of_char c :: nat) \<and> (of_char c :: nat) \<le> 57)"

definition digit_of :: "char \<Rightarrow> nat" where
  "digit_of c = of_char c - 48"

fun digits_val :: "nat \<Rightarrow> string \<Rightarrow> nat" where
  "digits_val acc [] = acc"
| "digits_val acc (c # cs) =
     (if isdigit c then digits_val (10 * acc + digit_of c) cs else acc)"

fun frac_val :: "string \<Rightarrow> real" where
  "frac_val [] = 0"
| "frac_val (c # cs) = (if isdigit c then (real (digit_of c) + frac_val cs) / 10 else 0)"

definition strip_sign :: "string \<Rightarrow> bool \<times> string" where
  "strip_sign s =
     (case s of
        [] \<Rightarrow> (False, [])
      | c # cs \<Rightarrow> if c = CHR ''-'' then (True, cs)
                else if c = CHR ''+'' then (False, cs) else (False, s))"

definition atol :: "string \<Rightarrow> int" where
  "atol s =
     (let (neg, ds) = strip_sign (dropWhile isspace s);
          n = int (digits_val 0 ds)
      in if neg then - n else n)"

definition toInt :: "string \<Rightarrow> 32 word" where
  "toInt s = word_of_int (atol s)"

definition exponent_of :: "string \<Rightarrow> int" where
  "exponent_of s =
     (case s of
        [] \<Rightarrow> 0
      | c # cs \<Rightarrow>
          if c = CHR ''e'' \<or> c = CHR ''E'' then
            (let (neg, ds) = strip_sign cs;
                 e = int (digits_val 0 ds)
             in if neg then - e else e)
          else 0)"

definition scale10 :: "real \<Rightarrow> int \<Rightarrow> real" where
  "scale10 m e = (if 0 \<le> e then m * 10 ^ nat e else m / 10 ^ nat (- e))"

definition toFloat :: "string \<Rightarrow> real" where
  "toFloat s =
     (let (neg, ds) = strip_sign (dropWhile isspace s);
          after_int = dropWhile isdigit ds;
          frac = (case after_int of
                    [] \<Rightarrow> []
                  | c # cs \<Rightarrow> if c = CHR ''.'' then cs else []);
          rest = (case after_int of
                    [] \<Rightarrow> []
                  | c # cs \<Rightarrow> if c = CHR ''.'' then dropWhile isdigit cs else c # cs);
          m = scale10 (real (digits_val 0 ds) + frac_val frac) (exponent_of rest)
      in if neg then - m else m)"

section \<open>Frames written to the serial link\<close>

text \<open>
  One constructor per line the sketches print. Number formatting (6 or 2 decimals) is
  left out: a frame carries the values that are printed.
\<close>

datatype frame =
    STRAIN_ARDUINO_READY
  | Channel_initialized nat
  | ERROR_Channel_not_found nat
  | STRAIN ulong "real list"
  | TARE_COMPLETE
  | CALIBRATION_SET int16 real
  | MOTION_ARDUINO_READY
  | Sensor_initialized nat
  | ERROR_Sensor_not_found nat
  | CALIBRATING_SENSORS_START
  | CALIBRATING_SENSORS_COMPLETE
  | MOTION ulong "real list"

record node_state =
  lastSampleTime :: ulong

text \<open>
  What one pass of \<open>loop\<close> reads on either node: the clock (\<open>millis()\<close>) and, when
  \<open>Serial.available() > 0\<close>, the line that \<open>readStringUntil\<close> returns.
\<close>

record node_input =
  millis :: ulong
  serial :: "string option"

section \<open>Strain node (strain\_arduino.ino)\<close>

subsection \<open>The HX711 amplifier library\<close>

text \<open>
  \<open>HX711.h\<close> is the library "HX711" by Bogdan Necula that INSTALL.md tells the user to
  install; its source is not part of the repository. The members the sketch calls are
  modelled as that library defines them: an object holds \<open>OFFSET\<close> (initially 0) and
  \<open>SCALE\<close> (initially 1); \<open>tare\<close> stores the averaged conversion in \<open>OFFSET\<close>;
  \<open>set_scale\<close> stores its argument in \<open>SCALE\<close> without any check; \<open>get_value\<close> returns
  the conversion minus \<open>OFFSET\<close>; \<open>get_units\<close> (which the sketch never calls) is
  \<open>get_value\<close> divided by \<open>SCALE\<close>.

  What the amplifier delivers is an input of the model: \<open>is_ready\<close> is the state of the
  data line and \<open>raw\<close> the 24-bit conversion that a read obtains. The signal is taken
  to be steady during one library call, so the average of several conversions is that
  value, and every blocking read of the library is assumed to return.
\<close>

record HX711 =
  OFFSET :: int
  SCALE :: real

record hx_signal =
  is_ready :: bool
  raw :: int

definition HX711_new :: HX711 where
  "HX711_new = \<lparr>OFFSET = 0, SCALE = 1\<rparr>"

definition read_average :: "hx_signal \<Rightarrow> int" where
  "read_average sig = raw sig"

definition tare :: "HX711 \<Rightarrow> hx_signal \<Rightarrow> HX711" where
  "tare h sig = h\<lparr>OFFSET := read_average sig\<rparr>"

definition set_scale :: "HX711 \<Rightarrow> real \<Rightarrow> HX711" where
  "set_scale h factor = h\<lparr>SCALE := factor\<rparr>"

definition get_value :: "HX711 \<Rightarrow> hx_signal \<Rightarrow> real" where
  "get_value h sig = real_of_int (read_average sig - OFFSET h)"

definition get_units :: "HX711 \<Rightarrow> hx_signal \<Rightarrow> real" where
  "get_units h sig = get_value h sig / SCALE h"

subsection \<open>State and inputs\<close>

record strain_state = node_state +
  scale :: "HX711 list"
  readings :: "real list"

text \<open>
  Besides the clock and the command line, one pass of \<open>loop\<close> sees the amplifiers while
  it samples and the amplifiers while the command runs.
\<close>

record strain_input = node_input +
  sample_hw :: "nat \<Rightarrow> hx_signal"
  command_hw :: "nat \<Rightarrow> hx_signal"

definition SAMPLE_INTERVAL_strain :: ulong where
  "SAMPLE_INTERVAL_strain = 100"

subsection \<open>setup\<close>

definition setup_channel :: "(nat \<Rightarrow> hx_signal) \<Rightarrow> nat \<Rightarrow> HX711 \<times> frame" where
  "setup_channel hw i =
     (if is_ready (hw i) then (tare HX711_new (hw i), Channel_initialized (i + 1))
      else (HX711_new, ERROR_Channel_not_found (i + 1)))"

definition setup_strain :: "(nat \<Rightarrow> hx_signal) \<Rightarrow> strain_state \<times> frame list" where
  "setup_strain hw =
     (\<lparr>lastSampleTime = 0,
       scale = map (\<lambda>i. fst (setup_channel hw i)) [0..<8],
       readings = replicate 8 0\<rparr>,
      STRAIN_ARDUINO_READY # map (\<lambda>i. snd (setup_channel hw i)) [0..<8])"

subsection \<open>processCommand\<close>

definition processCommand_strain ::
  "string \<Rightarrow> (nat \<Rightarrow> hx_signal) \<Rightarrow> strain_state \<Rightarrow> strain_state \<times> frame list" where
  "processCommand_strain command hw st =
     (if startsWith command ''TARE'' then
        (st\<lparr>scale := map (\<lambda>i. tare (scale st ! i) (hw i)) [0..<8]\<rparr>, [TARE_COMPLETE])
      else if startsWith command ''CALIBRATE'' then
        (let commaIndex = indexOf command (CHR '','') 10 in
         if 0 < commaIndex then
           (let channel = (ucast (toInt (substring command 10 (nat commaIndex))) :: int16);
                factor = toFloat (substring_from command (nat (commaIndex + 1)))
            in if 1 \<le> sint channel \<and> sint channel \<le> 8 then
                 (st\<lparr>scale := (scale st)
                        [nat (sint channel - 1) :=
                           set_scale (scale st ! nat (sint channel - 1)) factor]\<rparr>,
                  [CALIBRATION_SET channel factor])
               else (st, []))
         else (st, []))
      else if equals command ''IDENTITY'' then (st, [STRAIN_ARDUINO_READY])
      else (st, []))"

subsection \<open>loop\<close>

definition read_channel :: "HX711 \<Rightarrow> hx_signal \<Rightarrow> real" where
  "read_channel h sig = (if is_ready sig then get_value h sig else 0)"

definition sample_strain :: "strain_input \<Rightarrow> strain_state \<Rightarrow> strain_state \<times> frame list" where
  "sample_strain inp st =
     (let currentTime = millis inp in
      if SAMPLE_INTERVAL_strain \<le> currentTime - lastSampleTime st then
        (let rs = map (\<lambda>i. read_channel (scale st ! i) (sample_hw inp i)) [0..<8]
         in (st\<lparr>lastSampleTime := currentTime, readings := rs\<rparr>, [STRAIN currentTime rs]))
      else (st, []))"

definition loop_strain :: "strain_input \<Rightarrow> strain_state \<Rightarrow> strain_state \<times> frame list" where
  "loop_strain inp st =
     (let (st1, out1) = sample_strain inp st;
          (st2, out2) = (case serial inp of
                           None \<Rightarrow> (st1, [])
                         | Some command \<Rightarrow> processCommand_strain command (command_hw inp) st1)
      in (st2, out1 @ out2))"

text \<open>
  \<open>run\<close> is a sequence of passes of \<open>loop\<close>, one per input, with the frames printed
  in order; \<open>boot\<close> is \<open>setup\<close> followed by such a sequence.
\<close>

fun run_strain :: "strain_input list \<Rightarrow> strain_state \<Rightarrow> strain_state \<times> frame list" where
  "run_strain [] st = (st, [])"
| "run_strain (inp # inps) st =
     (let (st1, out1) = loop_strain inp st;
          (st2, out2) = run_strain inps st1
      in (st2, out1 @ out2))"

definition boot_strain ::
  "(nat \<Rightarrow> hx_signal) \<Rightarrow> strain_input list \<Rightarrow> strain_state \<times> frame list" where
  "boot_strain hw inps =
     (let (st0, out0) = setup_strain hw;
          (st, out) = run_strain inps st0
      in (st, out0 @ out))"

section \<open>Motion node (the motion\_arduino sketch)\<close>

subsection \<open>C's \<open>atan2\<close> on the reals\<close>

definition atan2 :: "real \<Rightarrow> real \<Rightarrow> real" where
  "atan2 y x =
     (if 0 < x then arctan (y / x)
      else if x < 0 then (if 0 \<le> y then arctan (y / x) + pi else arctan (y / x) - pi)
      else if 0 < y then pi / 2
      else if y < 0 then - pi / 2
      else 0)"

subsection \<open>The MPU6050 library\<close>

text \<open>
  \<open>getMotion6\<close> returns \<open>void\<close>: after the call the six \<open>int16_t\<close> locals hold whatever
  the library wrote, and the sketch has no way to see whether the bus transaction
  completed. The model records that fact in \<open>completed\<close>, which no definition below reads.
\<close>

record motion6 =
  ax :: int16
  ay :: int16
  az :: int16
  gx :: int16
  gy :: int16
  gz :: int16
  completed :: bool

record motion_input = node_input +
  getMotion6 :: "nat \<Rightarrow> motion6"

record motion_state = node_state +
  pitch :: "real list"
  roll :: "real list"
  yaw :: "real list"
  angle_offset :: real

definition SAMPLE_INTERVAL_motion :: ulong where
  "SAMPLE_INTERVAL_motion = 10"

definition alpha :: real where
  "alpha = 98 / 100"

subsection \<open>calibrateSensors, setup, processCommand\<close>

text \<open>
  \<open>CalibrateGyro\<close> and \<open>CalibrateAccel\<close> change offsets inside the sensors, which shows
  only in later readings (inputs of the model); the sketch's own variables stay as they
  are. Both calls are assumed to return.
\<close>

definition calibrateSensors :: "frame list" where
  "calibrateSensors = [CALIBRATING_SENSORS_START, CALIBRATING_SENSORS_COMPLETE]"

definition setup_sensor :: "(nat \<Rightarrow> bool) \<Rightarrow> nat \<Rightarrow> frame" where
  "setup_sensor testConnection i =
     (if testConnection i then Sensor_initialized (i + 1) else ERROR_Sensor_not_found (i + 1))"

definition setup_motion :: "(nat \<Rightarrow> bool) \<Rightarrow> motion_state \<times> frame list" where
  "setup_motion testConnection =
     (\<lparr>lastSampleTime = 0, pitch = [0, 0, 0], roll = [0, 0, 0], yaw = [0, 0, 0],
       angle_offset = 0\<rparr>,
      MOTION_ARDUINO_READY # map (setup_sensor testConnection) [0, 1] @ calibrateSensors)"

definition processCommand_motion :: "string \<Rightarrow> motion_state \<Rightarrow> motion_state \<times> frame list" where
  "processCommand_motion command st =
     (if equals command ''CALIBRATE'' then (st, calibrateSensors)
      else if equals command ''IDENTITY'' then (st, [MOTION_ARDUINO_READY])
      else (st, []))"

subsection \<open>loop\<close>

text \<open>
  The body of the \<open>for\<close> loop over the two real sensors. \<open>ax * ax + az * az\<close> and \<open>-ax\<close>
  are computed in \<open>int\<close>, that is in 16 bits, before the conversion to floating point.
  Where the wrapped sum is negative the device's \<open>sqrt\<close> yields NaN, which \<open>real\<close> does
  not have; no statement below depends on the value of \<open>sqrt\<close> there.
\<close>

definition fuse :: "nat \<Rightarrow> motion6 \<Rightarrow> motion_state \<Rightarrow> motion_state" where
  "fuse i m st =
     (let accelPitch =
            atan2 (real_of_int (sint (ay m)))
                  (sqrt (real_of_int (sint (ax m * ax m + az m * az m)))) * 180 / pi;
          accelRoll =
            atan2 (real_of_int (sint (- ax m))) (real_of_int (sint (az m))) * 180 / pi;
          gyroX = real_of_int (sint (gx m)) / 131;
          gyroY = real_of_int (sint (gy m)) / 131;
          gyroZ = real_of_int (sint (gz m)) / 131;
          dt = real (unat SAMPLE_INTERVAL_motion) / 1000;
          gyroPitch = pitch st ! i + gyroY * dt;
          gyroRoll = roll st ! i + gyroX * dt;
          gyroYaw = yaw st ! i + gyroZ * dt
      in st\<lparr>pitch := (pitch st)[i := alpha * gyroPitch + (1 - alpha) * accelPitch],
            roll := (roll st)[i := alpha * gyroRoll + (1 - alpha) * accelRoll],
            yaw := (yaw st)[i := gyroYaw]\<rparr>)"

definition next_angle_offset :: "real \<Rightarrow> real" where
  "next_angle_offset off = (let off1 = off + 1 / 100 in if 30 < off1 then 0 else off1)"

definition simulate_third :: "motion_state \<Rightarrow> motion_state" where
  "simulate_third st =
     (let off = next_angle_offset (angle_offset st)
      in st\<lparr>angle_offset := off,
            pitch := (pitch st)[2 := pitch st ! 1 + off],
            roll := (roll st)[2 := roll st ! 1],
            yaw := (yaw st)[2 := yaw st ! 1]\<rparr>)"

definition motion_record :: "ulong \<Rightarrow> motion_state \<Rightarrow> frame" where
  "motion_record t st =
     MOTION t (concat (map (\<lambda>i. [pitch st ! i, roll st ! i, yaw st ! i]) [0, 1, 2]))"

definition sample_motion :: "motion_input \<Rightarrow> motion_state \<Rightarrow> motion_state \<times> frame list" where
  "sample_motion inp st =
     (let currentTime = millis inp in
      if SAMPLE_INTERVAL_motion \<le> currentTime - lastSampleTime st then
        (let st1 = fold (\<lambda>i. fuse i (getMotion6 inp i)) [0, 1]
                     (st\<lparr>lastSampleTime := currentTime\<rparr>);
             st2 = simulate_third st1
         in (st2, [motion_record currentTime st2]))
      else (st, []))"

definition loop_motion :: "motion_input \<Rightarrow> motion_state \<Rightarrow> motion_state \<times> frame list" where
  "loop_motion inp st =
     (let (st1, out1) = sample_motion inp st;
          (st2, out2) = (case serial inp of
                           None \<Rightarrow> (st1, [])
                         | Some command \<Rightarrow> processCommand_motion command st1)
      in (st2, out1 @ out2))"

fun run_motion :: "motion_input list \<Rightarrow> motion_state \<Rightarrow> motion_state \<times> frame list" where
  "run_motion [] st = (st, [])"
| "run_motion (inp # inps) st =
     (let (st1, out1) = loop_motion inp st;
          (st2, out2) = run_motion inps st1
      in (st2, out1 @ out2))"

definition boot_motion ::
  "(nat \<Rightarrow> bool) \<Rightarrow> motion_input list \<Rightarrow> motion_state \<times> frame list" where
  "boot_motion testConnection inps =
     (let (st0, out0) = setup_motion testConnection;
          (st, out) = run_motion inps st0
      in (st, out0 @ out))"

section \<open>Reading a trace\<close>

text \<open>
  The time stamps of the data records (STRAIN or MOTION) of a trace, in order, and the
  test for a MOTION record.
\<close>

fun record_time :: "frame \<Rightarrow> ulong option" where
  "record_time (STRAIN t vs) = Some t"
| "record_time (MOTION t vs) = Some t"
| "record_time f = None"

definition record_times :: "frame list \<Rightarrow> ulong list" where
  "record_times out = List.map_filter record_time out"

fun is_MOTION :: "frame \<Rightarrow> bool" where
  "is_MOTION (MOTION t vs) = True"
| "is_MOTION f = False"

text \<open>
  The same pass of \<open>loop\<close> with other outcomes of the bus transactions: only the
  \<open>completed\<close> flags of the readings change, not the values in the locals.
\<close>

definition set_completed :: "(nat \<Rightarrow> bool) \<Rightarrow> motion_input \<Rightarrow> motion_input" where
  "set_completed c inp = inp\<lparr>getMotion6 := \<lambda>i. (getMotion6 inp i)\<lparr>completed := c i\<rparr>\<rparr>"

section \<open>Example inputs\<close>

text \<open>
  Strain node: every amplifier shows the conversion 1000, and the third one (index 2) is
  not ready. \<open>ex_strain_state\<close> is the state that \<open>setup\<close> leaves when no amplifier was
  ready at boot (offsets 0, scale factors 1); \<open>ex_strain_input\<close> is a pass of \<open>loop\<close> at
  100 ms with no command; \<open>ex_strain_ticks\<close> is three such passes.
\<close>

definition ex_hw :: "nat \<Rightarrow> hx_signal" where
  "ex_hw i = \<lparr>is_ready = (i \<noteq> 2), raw = 1000\<rparr>"

definition ex_strain_state :: strain_state where
  "ex_strain_state =
     \<lparr>lastSampleTime = 0, scale = replicate 8 HX711_new, readings = replicate 8 0\<rparr>"

definition ex_strain_input :: strain_input where
  "ex_strain_input = \<lparr>millis = 100, serial = None, sample_hw = ex_hw, command_hw = ex_hw\<rparr>"

definition ex_strain_ticks :: "strain_input list" where
  "ex_strain_ticks =
     map (\<lambda>t. \<lparr>millis = t, serial = None, sample_hw = ex_hw, command_hw = ex_hw\<rparr>)
       [100, 150, 200]"

definition ex_tared_state :: strain_state where
  "ex_tared_state = fst (processCommand_strain ''TARE'' ex_hw ex_strain_state)"

definition ex_calibrated_state :: strain_state where
  "ex_calibrated_state = fst (processCommand_strain ''CALIBRATE,1,2.0'' ex_hw ex_strain_state)"

text \<open>
  Motion node: \<open>ex_motion_state\<close> is the state after \<open>setup\<close>. \<open>ex_motion6\<close> is a sensor
  turning about z at one degree per second; \<open>ex_side6\<close> is the same sensor lying on its
  side (one g along y), read with or without a completed bus transaction; \<open>ex_tilt6\<close>
  shows one g along y and along z and no rotation.
\<close>

definition ex_motion_state :: motion_state where
  "ex_motion_state = fst (setup_motion (\<lambda>i. True))"

definition ex_motion6 :: "nat \<Rightarrow> motion6" where
  "ex_motion6 i = \<lparr>ax = 0, ay = 0, az = 0, gx = 0, gy = 0, gz = 131, completed = True\<rparr>"

definition ex_motion_ticks :: "motion_input list" where
  "ex_motion_ticks =
     map (\<lambda>t. \<lparr>millis = t, serial = None, getMotion6 = ex_motion6\<rparr>) [10, 15, 20]"

definition ex_side6 :: "bool \<Rightarrow> motion6" where
  "ex_side6 ok = \<lparr>ax = 0, ay = 16384, az = 0, gx = 0, gy = 0, gz = 131, completed = ok\<rparr>"

definition ex_good_cycle :: motion_input where
  "ex_good_cycle = \<lparr>millis = 10, serial = None, getMotion6 = \<lambda>i. ex_side6 True\<rparr>"

definition ex_failed_cycle :: motion_input where
  "ex_failed_cycle = \<lparr>millis = 20, serial = None, getMotion6 = \<lambda>i. ex_side6 False\<rparr>"

definition ex_tilt6 :: motion6 where
  "ex_tilt6 = \<lparr>ax = 0, ay = 16384, az = 16384, gx = 0, gy = 0, gz = 0, completed = True\<rparr>"

definition ex_tilt_cycle :: motion_input where
  "ex_tilt_cycle = \<lparr>millis = 10, serial = None, getMotion6 = \<lambda>i. ex_tilt6\<rparr>"

section \<open>Strain node: sampling\<close>

lemmas String_defs =
  c_str_def equals_def startsWith_def indexOf_def substring_def substring_from_def
  isspace_def isdigit_def digit_of_def strip_sign_def atol_def toInt_def
  exponent_of_def scale10_def toFloat_def

lemma record_times_append: "record_times (xs @ ys) = record_times xs @ record_times ys"
  by (simp add: record_times_def map_filter_def)

lemma processCommand_strain_lastSampleTime:
  "lastSampleTime (fst (processCommand_strain command hw st)) = lastSampleTime st"
  by (simp add: processCommand_strain_def Let_def)

lemma processCommand_strain_no_record:
  "record_times (snd (processCommand_strain command hw st)) = []"
  by (simp add: processCommand_strain_def Let_def record_times_def map_filter_def)

lemma sample_strain_due:
  "SAMPLE_INTERVAL_strain \<le> millis inp - lastSampleTime st \<Longrightarrow>
   sample_strain inp st =
     (st\<lparr>lastSampleTime := millis inp,
         readings := map (\<lambda>i. read_channel (scale st ! i) (sample_hw inp i)) [0..<8]\<rparr>,
      [STRAIN (millis inp) (map (\<lambda>i. read_channel (scale st ! i) (sample_hw inp i)) [0..<8])])"
  by (simp add: sample_strain_def Let_def)

lemma sample_strain_not_due:
  "\<not> SAMPLE_INTERVAL_strain \<le> millis inp - lastSampleTime st \<Longrightarrow>
   sample_strain inp st = (st, [])"
  by (simp add: sample_strain_def Let_def)

lemma loop_strain_due:
  assumes "SAMPLE_INTERVAL_strain \<le> millis inp - lastSampleTime st"
  shows "\<exists>out2. snd (loop_strain inp st) =
           STRAIN (millis inp)
             (map (\<lambda>i. read_channel (scale st ! i) (sample_hw inp i)) [0..<8]) # out2"
  using assms by (simp add: loop_strain_def sample_strain_due split: prod.split option.split)

text \<open>
  Claim C9. Whenever the strain node samples, it emits one STRAIN record with eight
  values; the value of a channel whose \<open>is_ready\<close> check fails is the sentinel 0, and
  every other channel carries its normal reading. Nothing aborts the record.
\<close>

theorem C9_not_ready_sentinel:
  assumes "SAMPLE_INTERVAL_strain \<le> millis inp - lastSampleTime st"
  shows "\<exists>vs out2. snd (loop_strain inp st) = STRAIN (millis inp) vs # out2 \<and> length vs = 8 \<and>
           (\<forall>i<8. vs ! i = (if is_ready (sample_hw inp i)
                            then get_value (scale st ! i) (sample_hw inp i) else 0))"
proof -
  from loop_strain_due [OF assms] obtain out2 where
    "snd (loop_strain inp st) =
       STRAIN (millis inp) (map (\<lambda>i. read_channel (scale st ! i) (sample_hw inp i)) [0..<8]) # out2"
    by blast
  then show ?thesis
    by (intro exI [of _ "map (\<lambda>i. read_channel (scale st ! i) (sample_hw inp i)) [0..<8]"]
          exI [of _ out2]) (simp add: read_channel_def)
qed

theorem C9_not_ready_sentinel_witness:
  "SAMPLE_INTERVAL_strain \<le> millis ex_strain_input - lastSampleTime ex_strain_state \<and>
   \<not> is_ready (sample_hw ex_strain_input 2) \<and> is_ready (sample_hw ex_strain_input 3) \<and>
   (\<exists>vs out2. snd (loop_strain ex_strain_input ex_strain_state) = STRAIN 100 vs # out2 \<and>
      length vs = 8 \<and> vs ! 2 = 0 \<and> vs ! 3 = 1000)"
proof -
  have due: "SAMPLE_INTERVAL_strain \<le> millis ex_strain_input - lastSampleTime ex_strain_state"
    by (simp add: SAMPLE_INTERVAL_strain_def ex_strain_input_def ex_strain_state_def)
  from C9_not_ready_sentinel [OF due] obtain vs out2 where
    a: "snd (loop_strain ex_strain_input ex_strain_state) = STRAIN (millis ex_strain_input) vs # out2"
    and b: "length vs = 8"
    and c: "\<forall>i<8. vs ! i = (if is_ready (sample_hw ex_strain_input i)
              then get_value (scale ex_strain_state ! i) (sample_hw ex_strain_input i) else 0)"
    by blast
  from c have "vs ! 2 = 0" "vs ! 3 = 1000"
    by (simp_all add: ex_strain_input_def ex_strain_state_def ex_hw_def get_value_def
          read_average_def HX711_new_def)
  with a b due show ?thesis
    by (simp add: ex_strain_input_def ex_hw_def)
qed

section \<open>Strain node: tare and calibration\<close>

lemma processCommand_strain_TARE:
  "startsWith command ''TARE'' \<Longrightarrow>
   processCommand_strain command hw st =
     (st\<lparr>scale := map (\<lambda>i. tare (scale st ! i) (hw i)) [0..<8]\<rparr>, [TARE_COMPLETE])"
  by (simp add: processCommand_strain_def)

lemma read_channel_after_tare:
  "raw sig' = raw sig \<Longrightarrow> read_channel (tare h sig) sig' = 0"
  by (simp add: read_channel_def get_value_def tare_def read_average_def)

text \<open>
  Claim C8. After a TARE command, a sample taken while a channel's raw signal is what it
  was during the tare reads exactly 0 on that channel: \<open>tare\<close> stored the conversion
  in \<open>OFFSET\<close>, and \<open>get_value\<close> subtracts it. (A channel that is not ready reads 0
  as well.)
\<close>

theorem C8_tare_then_read_zero:
  assumes "startsWith command ''TARE''"
    and "SAMPLE_INTERVAL_strain \<le> millis inp - lastSampleTime st"
  shows "snd (processCommand_strain command hw st) = [TARE_COMPLETE] \<and>
         (\<exists>vs out2. snd (loop_strain inp (fst (processCommand_strain command hw st))) =
              STRAIN (millis inp) vs # out2 \<and> length vs = 8 \<and>
              (\<forall>i<8. raw (sample_hw inp i) = raw (hw i) \<longrightarrow> vs ! i = 0))"
proof -
  let ?st' = "fst (processCommand_strain command hw st)"
  have st': "?st' = st\<lparr>scale := map (\<lambda>i. tare (scale st ! i) (hw i)) [0..<8]\<rparr>"
    by (simp add: processCommand_strain_TARE [OF assms(1)])
  have due: "SAMPLE_INTERVAL_strain \<le> millis inp - lastSampleTime ?st'"
    using assms(2) by (simp add: st')
  from loop_strain_due [OF due] obtain out2 where
    out: "snd (loop_strain inp ?st') =
       STRAIN (millis inp) (map (\<lambda>i. read_channel (scale ?st' ! i) (sample_hw inp i)) [0..<8]) # out2"
    by blast
  have "\<forall>i<8. raw (sample_hw inp i) = raw (hw i) \<longrightarrow>
          map (\<lambda>i. read_channel (scale ?st' ! i) (sample_hw inp i)) [0..<8] ! i = 0"
    by (simp add: st' read_channel_after_tare)
  with out show ?thesis
    by (simp add: processCommand_strain_TARE [OF assms(1)])
qed

theorem C8_tare_then_read_zero_witness:
  "startsWith ''TARE'' ''TARE'' \<and>
   SAMPLE_INTERVAL_strain \<le> millis ex_strain_input - lastSampleTime ex_strain_state \<and>
   raw (sample_hw ex_strain_input 3) = raw (ex_hw 3) \<and>
   (\<exists>vs out2. snd (loop_strain ex_strain_input ex_tared_state) = STRAIN 100 vs # out2 \<and>
      length vs = 8 \<and> vs ! 3 = 0)"
proof -
  have a: "startsWith ''TARE'' ''TARE''"
    by (simp add: startsWith_def c_str_def equals_def)
  have due: "SAMPLE_INTERVAL_strain \<le> millis ex_strain_input - lastSampleTime ex_strain_state"
    by (simp add: SAMPLE_INTERVAL_strain_def ex_strain_input_def ex_strain_state_def)
  have same: "raw (sample_hw ex_strain_input 3) = raw (ex_hw 3)"
    by (simp add: ex_strain_input_def)
  from C8_tare_then_read_zero [OF a due, of ex_hw] obtain vs out2 where
    "snd (loop_strain ex_strain_input ex_tared_state) = STRAIN (millis ex_strain_input) vs # out2"
    "length vs = 8"
    "\<forall>i<8. raw (sample_hw ex_strain_input i) = raw (ex_hw i) \<longrightarrow> vs ! i = 0"
    unfolding ex_tared_state_def by blast
  with a due same show ?thesis
    by (simp add: ex_strain_input_def)
qed

text \<open>
  The reading that \<open>loop\<close> takes does not depend on the stored scale factor: the sketch
  reads with \<open>get_value\<close>, not with \<open>get_units\<close>.
\<close>

lemma read_channel_set_scale: "read_channel (set_scale h factor) sig = read_channel h sig"
  by (simp add: read_channel_def get_value_def set_scale_def)

text \<open>The library member that does divide by the factor is \<open>get_units\<close>.\<close>

lemma get_units_set_scale:
  "get_units (set_scale h factor) sig = real_of_int (raw sig - OFFSET h) / factor"
  by (simp add: get_units_def get_value_def set_scale_def read_average_def)

lemma processCommand_strain_ex_calibrate:
  "processCommand_strain ''CALIBRATE,1,2.0'' ex_hw ex_strain_state =
     (ex_strain_state\<lparr>scale := (scale ex_strain_state)[0 := set_scale (scale ex_strain_state ! 0) 2]\<rparr>,
      [CALIBRATION_SET 1 2])"
  by (simp add: processCommand_strain_def String_defs)

text \<open>
  Claim C1 says that after \<open>set_scale factor\<close> a reading is (raw - offset) / factor.
  On the code it is not: after the accepted command \<open>CALIBRATE,1,2.0\<close> channel 1 holds
  the factor 2 and offset 0, its amplifier delivers 1000, and the record carries 1000,
  where the claim gives 500.
\<close>

theorem C1_scale_not_applied:
  "snd (processCommand_strain ''CALIBRATE,1,2.0'' ex_hw ex_strain_state) = [CALIBRATION_SET 1 2] \<and>
   SCALE (scale ex_calibrated_state ! 0) = 2 \<and>
   OFFSET (scale ex_calibrated_state ! 0) = 0 \<and>
   is_ready (sample_hw ex_strain_input 0) \<and>
   raw (sample_hw ex_strain_input 0) = 1000 \<and>
   readings (fst (loop_strain ex_strain_input ex_calibrated_state)) ! 0 = 1000 \<and>
   real_of_int (raw (sample_hw ex_strain_input 0) - OFFSET (scale ex_calibrated_state ! 0))
     / SCALE (scale ex_calibrated_state ! 0) = 500"
  unfolding ex_calibrated_state_def processCommand_strain_ex_calibrate
  by (simp add: loop_strain_def sample_strain_def SAMPLE_INTERVAL_strain_def Let_def
        ex_strain_input_def ex_strain_state_def ex_hw_def read_channel_def get_value_def
        read_average_def set_scale_def HX711_new_def)

section \<open>Command lines that are dropped\<close>

text \<open>
  Claim C5 as stated fails: a CALIBRATE line whose factor cannot be parsed is not dropped.
  \<open>toFloat\<close> yields 0 for \<open>abc\<close>, and the sketch stores that 0 as the scale of channel 3
  (which was 1) and acknowledges it.
\<close>

theorem C5_unparsable_factor_counterexample:
  "snd (processCommand_strain ''CALIBRATE,3,abc'' ex_hw ex_strain_state) = [CALIBRATION_SET 3 0] \<and>
   SCALE (scale (fst (processCommand_strain ''CALIBRATE,3,abc'' ex_hw ex_strain_state)) ! 2) = 0 \<and>
   SCALE (scale ex_strain_state ! 2) = 1"
  by (simp add: processCommand_strain_def String_defs set_scale_def ex_strain_state_def HX711_new_def)

text \<open>
  The channel field is read with \<open>toInt\<close> into a 16-bit \<open>int\<close>, so a channel number
  the line spells as 65537 is taken for channel 1.
\<close>

lemma calibrate_channel_truncated:
  "snd (processCommand_strain ''CALIBRATE,65537,1.0'' ex_hw ex_strain_state) =
     [CALIBRATION_SET 1 1]"
  by (simp add: processCommand_strain_def String_defs)

text \<open>
  \<open>IDENTITY\<close> (and on the motion node \<open>CALIBRATE\<close>) is recognised by C string
  comparison, so a line that continues after a NUL byte is recognised as well.
\<close>

lemma identity_before_NUL:
  "processCommand_strain (''IDENTITY'' @ CHR 0x00 # ''junk'') hw st = (st, [STRAIN_ARDUINO_READY]) \<and>
   processCommand_motion (''CALIBRATE'' @ [CHR 0x00]) mst = (mst, calibrateSensors)"
  by (simp add: processCommand_strain_def processCommand_motion_def String_defs)

text \<open>
  Claim C5, amended. The strain node emits no frame and changes no state for every line
  that does not start with \<open>TARE\<close>, does not compare equal to \<open>IDENTITY\<close> as a C string
  (that is, up to its first NUL byte), and either does not start with \<open>CALIBRATE\<close>, or
  has no comma from index 10 on before a NUL byte, or has a channel field whose 16-bit
  \<open>int\<close> value is outside 1..8. The motion node does so for every line that compares
  equal, as a C string, neither to \<open>CALIBRATE\<close> nor to \<open>IDENTITY\<close>.
\<close>

theorem C5_dropped_lines:
  "(\<not> startsWith command ''TARE'' \<and> \<not> equals command ''IDENTITY'' \<and>
    (\<not> startsWith command ''CALIBRATE'' \<or>
     indexOf command (CHR '','') 10 \<le> 0 \<or>
     \<not> (1 \<le> sint (ucast (toInt (substring command 10 (nat (indexOf command (CHR '','') 10)))) :: int16) \<and>
        sint (ucast (toInt (substring command 10 (nat (indexOf command (CHR '','') 10)))) :: int16) \<le> 8))
    \<longrightarrow> processCommand_strain command hw st = (st, [])) \<and>
   (\<not> equals command ''CALIBRATE'' \<and> \<not> equals command ''IDENTITY''
    \<longrightarrow> processCommand_motion command mst = (mst, []))"
  by (auto simp add: processCommand_strain_def processCommand_motion_def Let_def)

theorem C5_dropped_lines_witness:
  "\<not> startsWith ''CALIBRATE,9,1.0'' ''TARE'' \<and> \<not> equals ''CALIBRATE,9,1.0'' ''IDENTITY'' \<and>
   \<not> equals ''CALIBRATE,9,1.0'' ''CALIBRATE'' \<and>
   startsWith ''CALIBRATE,9,1.0'' ''CALIBRATE'' \<and>
   sint (ucast (toInt (substring ''CALIBRATE,9,1.0'' 10
           (nat (indexOf ''CALIBRATE,9,1.0'' (CHR '','') 10)))) :: int16) = 9 \<and>
   processCommand_strain ''CALIBRATE,9,1.0'' ex_hw ex_strain_state = (ex_strain_state, []) \<and>
   processCommand_motion ''CALIBRATE,9,1.0'' ex_motion_state = (ex_motion_state, [])"
  using C5_dropped_lines [of "''CALIBRATE,9,1.0''" ex_hw ex_strain_state ex_motion_state]
  by (simp add: String_defs)

section \<open>The stored scale factor\<close>

lemma SCALE_tare: "SCALE (tare h sig) = SCALE h"
  by (simp add: tare_def)

lemma setup_strain_scale:
  "length (scale (fst (setup_strain hw))) = 8 \<and>
   (\<forall>i<8. SCALE (scale (fst (setup_strain hw)) ! i) = 1)"
  by (simp add: setup_strain_def setup_channel_def HX711_new_def SCALE_tare)

lemma processCommand_strain_positive:
  assumes "length (scale st) = 8" and "\<forall>i<8. 0 < SCALE (scale st ! i)"
    and "\<forall>ch f. CALIBRATION_SET ch f \<in> set (snd (processCommand_strain command hw st)) \<longrightarrow> 0 < f"
  shows "length (scale (fst (processCommand_strain command hw st))) = 8 \<and>
         (\<forall>i<8. 0 < SCALE (scale (fst (processCommand_strain command hw st)) ! i))"
  using assms
  by (auto simp add: processCommand_strain_def Let_def SCALE_tare set_scale_def
        nth_list_update split: if_splits)

lemma sample_strain_scale:
  "scale (fst (sample_strain inp st)) = scale st \<and>
   (\<forall>ch f. CALIBRATION_SET ch f \<notin> set (snd (sample_strain inp st)))"
  by (simp add: sample_strain_def Let_def)

lemma loop_strain_positive:
  assumes "length (scale st) = 8" and "\<forall>i<8. 0 < SCALE (scale st ! i)"
    and "\<forall>ch f. CALIBRATION_SET ch f \<in> set (snd (loop_strain inp st)) \<longrightarrow> 0 < f"
  shows "length (scale (fst (loop_strain inp st))) = 8 \<and>
         (\<forall>i<8. 0 < SCALE (scale (fst (loop_strain inp st)) ! i))"
proof (cases "serial inp")
  case None
  then have "scale (fst (loop_strain inp st)) = scale st"
    using sample_strain_scale [of inp st]
    by (simp add: loop_strain_def split: prod.split)
  with assms show ?thesis by simp
next
  case (Some command)
  obtain st1 out1 where s: "sample_strain inp st = (st1, out1)"
    by (cases "sample_strain inp st")
  with sample_strain_scale [of inp st] have sc: "scale st1 = scale st" by simp
  have l: "loop_strain inp st =
      (fst (processCommand_strain command (command_hw inp) st1),
       out1 @ snd (processCommand_strain command (command_hw inp) st1))"
    by (simp add: loop_strain_def s Some split: prod.split)
  from assms(3) have
    "\<forall>ch f. CALIBRATION_SET ch f \<in> set (snd (processCommand_strain command (command_hw inp) st1))
       \<longrightarrow> 0 < f"
    by (simp add: l)
  from processCommand_strain_positive [OF _ _ this] assms(1,2) sc show ?thesis
    by (simp add: l)
qed

lemma run_strain_Cons:
  "run_strain (inp # inps) st =
     (fst (run_strain inps (fst (loop_strain inp st))),
      snd (loop_strain inp st) @ snd (run_strain inps (fst (loop_strain inp st))))"
  by (simp add: split_beta)

lemma run_strain_positive:
  assumes "length (scale st) = 8" and "\<forall>i<8. 0 < SCALE (scale st ! i)"
    and "\<forall>ch f. CALIBRATION_SET ch f \<in> set (snd (run_strain inps st)) \<longrightarrow> 0 < f"
  shows "length (scale (fst (run_strain inps st))) = 8 \<and>
         (\<forall>i<8. 0 < SCALE (scale (fst (run_strain inps st)) ! i))"
  using assms
proof (induction inps arbitrary: st)
  case Nil
  then show ?case by simp
next
  case (Cons inp inps)
  let ?st1 = "fst (loop_strain inp st)"
  note r = run_strain_Cons [of inp inps st]
  from Cons.prems(3) have
    a: "\<forall>ch f. CALIBRATION_SET ch f \<in> set (snd (loop_strain inp st)) \<longrightarrow> 0 < f" and
    b: "\<forall>ch f. CALIBRATION_SET ch f \<in> set (snd (run_strain inps ?st1)) \<longrightarrow> 0 < f"
    unfolding r by auto
  from loop_strain_positive [OF Cons.prems(1,2) a] have
    "length (scale ?st1) = 8" "\<forall>i<8. 0 < SCALE (scale ?st1 ! i)"
    by simp_all
  from Cons.IH [OF this b] show ?case
    unfolding r by simp
qed

text \<open>
  Claim C6 as stated fails: the sketch hands the parsed factor to \<open>set_scale\<close> unchecked,
  and \<open>set_scale\<close> stores it. After boot, the line \<open>CALIBRATE,1,-2.0\<close> leaves channel 1
  with the scale factor -2.
\<close>

theorem C6_negative_scale_counterexample:
  "SCALE (scale (fst (boot_strain ex_hw
      [\<lparr>millis = 5, serial = Some ''CALIBRATE,1,-2.0'', sample_hw = ex_hw, command_hw = ex_hw\<rparr>]))
    ! 0) = - 2"
  by (simp add: boot_strain_def setup_strain_def loop_strain_def sample_strain_def
        SAMPLE_INTERVAL_strain_def processCommand_strain_def String_defs set_scale_def Let_def)

text \<open>
  Claim C6, amended. Every channel's scale factor is 1 after \<open>setup\<close>, and it is strictly
  positive in every state the node reaches as long as every factor it has acknowledged
  with a \<open>CALIBRATION_SET\<close> frame was strictly positive. (The factor is stored exactly
  when it is acknowledged; nothing checks its sign.)
\<close>

theorem C6_scale_positive:
  assumes "\<forall>ch f. CALIBRATION_SET ch f \<in> set (snd (boot_strain hw inps)) \<longrightarrow> 0 < f"
  shows "(\<forall>i<8. SCALE (scale (fst (setup_strain hw)) ! i) = 1) \<and>
         (\<forall>i<8. 0 < SCALE (scale (fst (boot_strain hw inps)) ! i))"
proof -
  let ?st0 = "fst (setup_strain hw)"
  have b: "boot_strain hw inps =
      (fst (run_strain inps ?st0), snd (setup_strain hw) @ snd (run_strain inps ?st0))"
    by (simp add: boot_strain_def split_beta)
  from assms have
    "\<forall>ch f. CALIBRATION_SET ch f \<in> set (snd (run_strain inps ?st0)) \<longrightarrow> 0 < f"
    by (simp add: b)
  from run_strain_positive [OF _ _ this] setup_strain_scale [of hw] show ?thesis
    by (simp add: b)
qed

theorem C6_scale_positive_witness:
  "snd (boot_strain ex_hw
      [\<lparr>millis = 5, serial = Some ''CALIBRATE,1,2.0'', sample_hw = ex_hw, command_hw = ex_hw\<rparr>])
     = snd (setup_strain ex_hw) @ [CALIBRATION_SET 1 2] \<and>
   SCALE (scale (fst (setup_strain ex_hw)) ! 0) = 1 \<and>
   0 < SCALE (scale (fst (boot_strain ex_hw
      [\<lparr>millis = 5, serial = Some ''CALIBRATE,1,2.0'', sample_hw = ex_hw, command_hw = ex_hw\<rparr>]))
    ! 0)"
proof -
  let ?inps = "[\<lparr>millis = 5, serial = Some ''CALIBRATE,1,2.0'', sample_hw = ex_hw,
                 command_hw = ex_hw\<rparr>]"
  have out: "snd (boot_strain ex_hw ?inps) = snd (setup_strain ex_hw) @ [CALIBRATION_SET 1 2]"
    by (simp add: boot_strain_def loop_strain_def sample_strain_def split_beta
        SAMPLE_INTERVAL_strain_def processCommand_strain_def String_defs Let_def setup_strain_def)
  have "\<forall>ch f. CALIBRATION_SET ch f \<in> set (snd (boot_strain ex_hw ?inps)) \<longrightarrow> 0 < f"
    unfolding out by (auto simp add: setup_strain_def setup_channel_def split: if_splits)
  from C6_scale_positive [OF this] out show ?thesis
    by simp
qed

section \<open>Sampling schedule\<close>

lemma sample_strain_tick:
  "lastSampleTime (fst (sample_strain inp st)) =
     (if SAMPLE_INTERVAL_strain \<le> millis inp - lastSampleTime st then millis inp
      else lastSampleTime st) \<and>
   record_times (snd (sample_strain inp st)) =
     (if SAMPLE_INTERVAL_strain \<le> millis inp - lastSampleTime st then [millis inp] else [])"
  by (simp add: sample_strain_def Let_def record_times_def map_filter_def)

lemma loop_strain_tick:
  "lastSampleTime (fst (loop_strain inp st)) =
     (if SAMPLE_INTERVAL_strain \<le> millis inp - lastSampleTime st then millis inp
      else lastSampleTime st) \<and>
   record_times (snd (loop_strain inp st)) =
     (if SAMPLE_INTERVAL_strain \<le> millis inp - lastSampleTime st then [millis inp] else [])"
proof (cases "serial inp")
  case None
  then show ?thesis
    using sample_strain_tick [of inp st]
    by (simp add: loop_strain_def split_beta)
next
  case (Some command)
  then show ?thesis
    using sample_strain_tick [of inp st]
      processCommand_strain_lastSampleTime [of command "command_hw inp" "fst (sample_strain inp st)"]
      processCommand_strain_no_record [of command "command_hw inp" "fst (sample_strain inp st)"]
    by (simp add: loop_strain_def split_beta record_times_append)
qed

lemma fuse_lastSampleTime: "lastSampleTime (fuse i m st) = lastSampleTime st"
  by (simp add: fuse_def Let_def)

lemma simulate_third_lastSampleTime: "lastSampleTime (simulate_third st) = lastSampleTime st"
  by (simp add: simulate_third_def Let_def)

lemma sample_motion_tick:
  "lastSampleTime (fst (sample_motion inp st)) =
     (if SAMPLE_INTERVAL_motion \<le> millis inp - lastSampleTime st then millis inp
      else lastSampleTime st) \<and>
   record_times (snd (sample_motion inp st)) =
     (if SAMPLE_INTERVAL_motion \<le> millis inp - lastSampleTime st then [millis inp] else [])"
  by (simp add: sample_motion_def Let_def fuse_lastSampleTime simulate_third_lastSampleTime
        motion_record_def record_times_def map_filter_def)

lemma processCommand_motion_tick:
  "lastSampleTime (fst (processCommand_motion command st)) = lastSampleTime st \<and>
   record_times (snd (processCommand_motion command st)) = []"
  by (simp add: processCommand_motion_def calibrateSensors_def record_times_def map_filter_def)

lemma loop_motion_tick:
  "lastSampleTime (fst (loop_motion inp st)) =
     (if SAMPLE_INTERVAL_motion \<le> millis inp - lastSampleTime st then millis inp
      else lastSampleTime st) \<and>
   record_times (snd (loop_motion inp st)) =
     (if SAMPLE_INTERVAL_motion \<le> millis inp - lastSampleTime st then [millis inp] else [])"
proof (cases "serial inp")
  case None
  then show ?thesis
    using sample_motion_tick [of inp st]
    by (simp add: loop_motion_def split_beta)
next
  case (Some command)
  then show ?thesis
    using sample_motion_tick [of inp st]
      processCommand_motion_tick [of command "fst (sample_motion inp st)"]
    by (simp add: loop_motion_def split_beta record_times_append)
qed

lemma run_motion_Cons:
  "run_motion (inp # inps) st =
     (fst (run_motion inps (fst (loop_motion inp st))),
      snd (loop_motion inp st) @ snd (run_motion inps (fst (loop_motion inp st))))"
  by (simp add: split_beta)

text \<open>
  Consecutive records: the first record of a run is due with respect to the state the run
  starts in, and each later one with respect to the record before it.
\<close>

lemma run_strain_spacing:
  "successively (\<lambda>a b. SAMPLE_INTERVAL_strain \<le> b - a) (record_times (snd (run_strain inps st))) \<and>
   (record_times (snd (run_strain inps st)) \<noteq> [] \<longrightarrow>
      SAMPLE_INTERVAL_strain \<le> hd (record_times (snd (run_strain inps st))) - lastSampleTime st)"
proof (induction inps arbitrary: st)
  case Nil
  show ?case by (simp add: record_times_def map_filter_def)
next
  case (Cons inp inps)
  note r = run_strain_Cons [of inp inps st]
  note t = loop_strain_tick [of inp st]
  note ih = Cons.IH [of "fst (loop_strain inp st)"]
  show ?case
  proof (cases "SAMPLE_INTERVAL_strain \<le> millis inp - lastSampleTime st")
    case True
    with t ih show ?thesis
      unfolding r by (auto simp add: record_times_append successively_Cons)
  next
    case False
    with t ih show ?thesis
      unfolding r by (simp add: record_times_append)
  qed
qed

lemma run_motion_spacing:
  "successively (\<lambda>a b. SAMPLE_INTERVAL_motion \<le> b - a) (record_times (snd (run_motion inps st))) \<and>
   (record_times (snd (run_motion inps st)) \<noteq> [] \<longrightarrow>
      SAMPLE_INTERVAL_motion \<le> hd (record_times (snd (run_motion inps st))) - lastSampleTime st)"
proof (induction inps arbitrary: st)
  case Nil
  show ?case by (simp add: record_times_def map_filter_def)
next
  case (Cons inp inps)
  note r = run_motion_Cons [of inp inps st]
  note t = loop_motion_tick [of inp st]
  note ih = Cons.IH [of "fst (loop_motion inp st)"]
  show ?case
  proof (cases "SAMPLE_INTERVAL_motion \<le> millis inp - lastSampleTime st")
    case True
    with t ih show ?thesis
      unfolding r by (auto simp add: record_times_append successively_Cons)
  next
    case False
    with t ih show ?thesis
      unfolding r by (simp add: record_times_append)
  qed
qed

text \<open>
  All pairs of records, while the millisecond counter has not wrapped around: the clock
  readings of the run, read as natural numbers, do not decrease and start at or after
  \<open>lastSampleTime\<close>.
\<close>

lemma due_unat:
  fixes now last interval :: ulong
  assumes "interval \<le> now - last" and "unat last \<le> unat now"
  shows "unat last + unat interval \<le> unat now"
proof -
  from assms(2) have "last \<le> now" by (simp add: word_le_nat_alt)
  then have "unat (now - last) = unat now - unat last" by (rule unat_sub)
  with assms show ?thesis by (simp add: word_le_nat_alt)
qed

lemma run_strain_spacing_nat:
  assumes "sorted (unat (lastSampleTime st) # map (\<lambda>i. unat (millis i)) inps)"
  shows "sorted_wrt (\<lambda>a b. unat a + 100 \<le> unat b) (record_times (snd (run_strain inps st))) \<and>
         (\<forall>t \<in> set (record_times (snd (run_strain inps st))).
            unat (lastSampleTime st) + 100 \<le> unat t)"
  using assms
proof (induction inps arbitrary: st)
  case Nil
  show ?case by (simp add: record_times_def map_filter_def)
next
  case (Cons inp inps)
  note r = run_strain_Cons [of inp inps st]
  note t = loop_strain_tick [of inp st]
  let ?st1 = "fst (loop_strain inp st)"
  from Cons.prems have le: "unat (lastSampleTime st) \<le> unat (millis inp)"
    and rest: "sorted (unat (millis inp) # map (\<lambda>i. unat (millis i)) inps)"
    and rest': "sorted (unat (lastSampleTime st) # map (\<lambda>i. unat (millis i)) inps)"
    by auto
  show ?case
  proof (cases "SAMPLE_INTERVAL_strain \<le> millis inp - lastSampleTime st")
    case True
    from due_unat [OF True le] have d: "unat (lastSampleTime st) + 100 \<le> unat (millis inp)"
      by (simp add: SAMPLE_INTERVAL_strain_def)
    from True t have "lastSampleTime ?st1 = millis inp" by simp
    with Cons.IH [of ?st1] rest have
      "sorted_wrt (\<lambda>a b. unat a + 100 \<le> unat b) (record_times (snd (run_strain inps ?st1)))"
      "\<forall>t \<in> set (record_times (snd (run_strain inps ?st1))). unat (millis inp) + 100 \<le> unat t"
      by simp_all
    with True t d show ?thesis
      unfolding r by (auto simp add: record_times_append)
  next
    case False
    from False t have "lastSampleTime ?st1 = lastSampleTime st" by simp
    with Cons.IH [of ?st1] rest' have
      "sorted_wrt (\<lambda>a b. unat a + 100 \<le> unat b) (record_times (snd (run_strain inps ?st1)))"
      "\<forall>t \<in> set (record_times (snd (run_strain inps ?st1))).
         unat (lastSampleTime st) + 100 \<le> unat t"
      by simp_all
    with False t show ?thesis
      unfolding r by (simp add: record_times_append)
  qed
qed

lemma run_motion_spacing_nat:
  assumes "sorted (unat (lastSampleTime st) # map (\<lambda>i. unat (millis i)) inps)"
  shows "sorted_wrt (\<lambda>a b. unat a + 10 \<le> unat b) (record_times (snd (run_motion inps st))) \<and>
         (\<forall>t \<in> set (record_times (snd (run_motion inps st))).
            unat (lastSampleTime st) + 10 \<le> unat t)"
  using assms
proof (induction inps arbitrary: st)
  case Nil
  show ?case by (simp add: record_times_def map_filter_def)
next
  case (Cons inp inps)
  note r = run_motion_Cons [of inp inps st]
  note t = loop_motion_tick [of inp st]
  let ?st1 = "fst (loop_motion inp st)"
  from Cons.prems have le: "unat (lastSampleTime st) \<le> unat (millis inp)"
    and rest: "sorted (unat (millis inp) # map (\<lambda>i. unat (millis i)) inps)"
    and rest': "sorted (unat (lastSampleTime st) # map (\<lambda>i. unat (millis i)) inps)"
    by auto
  show ?case
  proof (cases "SAMPLE_INTERVAL_motion \<le> millis inp - lastSampleTime st")
    case True
    from due_unat [OF True le] have d: "unat (lastSampleTime st) + 10 \<le> unat (millis inp)"
      by (simp add: SAMPLE_INTERVAL_motion_def)
    from True t have "lastSampleTime ?st1 = millis inp" by simp
    with Cons.IH [of ?st1] rest have
      "sorted_wrt (\<lambda>a b. unat a + 10 \<le> unat b) (record_times (snd (run_motion inps ?st1)))"
      "\<forall>t \<in> set (record_times (snd (run_motion inps ?st1))). unat (millis inp) + 10 \<le> unat t"
      by simp_all
    with True t d show ?thesis
      unfolding r by (auto simp add: record_times_append)
  next
    case False
    from False t have "lastSampleTime ?st1 = lastSampleTime st" by simp
    with Cons.IH [of ?st1] rest' have
      "sorted_wrt (\<lambda>a b. unat a + 10 \<le> unat b) (record_times (snd (run_motion inps ?st1)))"
      "\<forall>t \<in> set (record_times (snd (run_motion inps ?st1))).
         unat (lastSampleTime st) + 10 \<le> unat t"
      by simp_all
    with False t show ?thesis
      unfolding r by (simp add: record_times_append)
  qed
qed

text \<open>
  Claim C3. On either node a pass of \<open>loop\<close> samples exactly when
  \<open>currentTime - lastSampleTime >= SAMPLE_INTERVAL\<close> in unsigned 32-bit arithmetic (100 ms on
  the strain node, 10 ms on the motion node); a pass that samples sets \<open>lastSampleTime\<close> to
  \<open>currentTime\<close> and emits exactly one record, stamped \<open>currentTime\<close>; a pass that does
  not sample leaves \<open>lastSampleTime\<close> alone and emits no record. Hence in every run each
  record is at least one interval after the record before it, and, while the millisecond
  counter has not wrapped, any two records are at least one interval apart.
\<close>

theorem C3_sampling_schedule:
  "SAMPLE_INTERVAL_strain = 100 \<and> SAMPLE_INTERVAL_motion = 10 \<and>
   lastSampleTime (fst (loop_strain inp st)) =
     (if SAMPLE_INTERVAL_strain \<le> millis inp - lastSampleTime st then millis inp
      else lastSampleTime st) \<and>
   record_times (snd (loop_strain inp st)) =
     (if SAMPLE_INTERVAL_strain \<le> millis inp - lastSampleTime st then [millis inp] else []) \<and>
   successively (\<lambda>a b. SAMPLE_INTERVAL_strain \<le> b - a) (record_times (snd (run_strain inps st))) \<and>
   (sorted (unat (lastSampleTime st) # map (\<lambda>i. unat (millis i)) inps) \<longrightarrow>
      sorted_wrt (\<lambda>a b. unat a + 100 \<le> unat b) (record_times (snd (run_strain inps st)))) \<and>
   lastSampleTime (fst (loop_motion minp mst)) =
     (if SAMPLE_INTERVAL_motion \<le> millis minp - lastSampleTime mst then millis minp
      else lastSampleTime mst) \<and>
   record_times (snd (loop_motion minp mst)) =
     (if SAMPLE_INTERVAL_motion \<le> millis minp - lastSampleTime mst then [millis minp] else []) \<and>
   successively (\<lambda>a b. SAMPLE_INTERVAL_motion \<le> b - a)
     (record_times (snd (run_motion minps mst))) \<and>
   (sorted (unat (lastSampleTime mst) # map (\<lambda>i. unat (millis i)) minps) \<longrightarrow>
      sorted_wrt (\<lambda>a b. unat a + 10 \<le> unat b) (record_times (snd (run_motion minps mst))))"
  using loop_strain_tick [of inp st] run_strain_spacing [of inps st]
    run_strain_spacing_nat [of st inps] loop_motion_tick [of minp mst]
    run_motion_spacing [of minps mst] run_motion_spacing_nat [of mst minps]
  by (simp add: SAMPLE_INTERVAL_strain_def SAMPLE_INTERVAL_motion_def)

lemma ex_strain_ticks_records:
  "record_times (snd (run_strain ex_strain_ticks ex_strain_state)) = [100, 200]"
  by (simp add: ex_strain_ticks_def ex_strain_state_def run_strain_Cons record_times_append
        loop_strain_tick SAMPLE_INTERVAL_strain_def record_times_def [of "[]"]
        del: run_strain.simps(2))

lemma ex_motion_ticks_records:
  "record_times (snd (run_motion ex_motion_ticks ex_motion_state)) = [10, 20]"
  by (simp add: ex_motion_ticks_def ex_motion_state_def setup_motion_def run_motion_Cons
        record_times_append loop_motion_tick SAMPLE_INTERVAL_motion_def
        record_times_def [of "[]"] del: run_motion.simps(2))

theorem C3_sampling_schedule_witness:
  "map (\<lambda>i. unat (millis i)) ex_strain_ticks = [100, 150, 200] \<and>
   lastSampleTime ex_strain_state = 0 \<and>
   record_times (snd (run_strain ex_strain_ticks ex_strain_state)) = [100, 200] \<and>
   sorted_wrt (\<lambda>a b. unat a + 100 \<le> unat b)
     (record_times (snd (run_strain ex_strain_ticks ex_strain_state))) \<and>
   map (\<lambda>i. unat (millis i)) ex_motion_ticks = [10, 15, 20] \<and>
   lastSampleTime ex_motion_state = 0 \<and>
   record_times (snd (run_motion ex_motion_ticks ex_motion_state)) = [10, 20] \<and>
   sorted_wrt (\<lambda>a b. unat a + 10 \<le> unat b)
     (record_times (snd (run_motion ex_motion_ticks ex_motion_state)))"
proof -
  have a: "map (\<lambda>i. unat (millis i)) ex_strain_ticks = [100, 150, 200]"
    "lastSampleTime ex_strain_state = 0"
    by (simp_all add: ex_strain_ticks_def ex_strain_state_def)
  have b: "map (\<lambda>i. unat (millis i)) ex_motion_ticks = [10, 15, 20]"
    "lastSampleTime ex_motion_state = 0"
    by (simp_all add: ex_motion_ticks_def ex_motion_state_def setup_motion_def)
  have "sorted (unat (lastSampleTime ex_strain_state) # map (\<lambda>i. unat (millis i)) ex_strain_ticks)"
    "sorted (unat (lastSampleTime ex_motion_state) # map (\<lambda>i. unat (millis i)) ex_motion_ticks)"
    unfolding a b by simp_all
  with C3_sampling_schedule [of "hd ex_strain_ticks" ex_strain_state ex_strain_ticks
      "hd ex_motion_ticks" ex_motion_state ex_motion_ticks]
  have "sorted_wrt (\<lambda>a b. unat a + 100 \<le> unat b)
          (record_times (snd (run_strain ex_strain_ticks ex_strain_state)))"
    "sorted_wrt (\<lambda>a b. unat a + 10 \<le> unat b)
          (record_times (snd (run_motion ex_motion_ticks ex_motion_state)))"
    by blast+
  with a b ex_strain_ticks_records ex_motion_ticks_records show ?thesis
    by simp
qed

section \<open>Motion node: the fusion cycle\<close>

lemma fuse_completed: "fuse i (m\<lparr>completed := b\<rparr>) st = fuse i m st"
  by (simp add: fuse_def)

lemma fuse_lengths:
  "length (pitch (fuse i m st)) = length (pitch st) \<and>
   length (roll (fuse i m st)) = length (roll st) \<and>
   length (yaw (fuse i m st)) = length (yaw st)"
  by (simp add: fuse_def Let_def)

lemma fuse_yaw:
  "i < length (yaw st) \<Longrightarrow>
   yaw (fuse i m st) ! j =
     (if j = i then yaw st ! i + real_of_int (sint (gz m)) / 131 * (1 / 100) else yaw st ! j)"
  by (simp add: fuse_def Let_def SAMPLE_INTERVAL_motion_def nth_list_update)

lemma sample_motion_due:
  "SAMPLE_INTERVAL_motion \<le> millis inp - lastSampleTime st \<Longrightarrow>
   fst (sample_motion inp st) =
     simulate_third (fuse 1 (getMotion6 inp 1)
       (fuse 0 (getMotion6 inp 0) (st\<lparr>lastSampleTime := millis inp\<rparr>)))"
  by (simp add: sample_motion_def Let_def)

lemma loop_motion_state: "fst (loop_motion inp st) = fst (sample_motion inp st)"
  by (simp add: loop_motion_def processCommand_motion_def split_beta split: option.split)

text \<open>
  Claim C2 as stated fails: the sketch cannot see a failed read, so it fuses whatever
  the call left behind. Here the first cycle reads a sensor lying on its side and turning
  at 1 degree per second; in the second cycle the bus transaction does not complete and
  the locals hold the same six values again. Pitch and yaw of module 1 move all the same.
\<close>

theorem C2_failed_read_counterexample:
  "\<not> completed (getMotion6 ex_failed_cycle 0) \<and>
   pitch (fst (run_motion [ex_good_cycle] ex_motion_state)) ! 0 = 9 / 5 \<and>
   pitch (fst (run_motion [ex_good_cycle, ex_failed_cycle] ex_motion_state)) ! 0 = 891 / 250 \<and>
   yaw (fst (run_motion [ex_good_cycle] ex_motion_state)) ! 0 = 1 / 100 \<and>
   yaw (fst (run_motion [ex_good_cycle, ex_failed_cycle] ex_motion_state)) ! 0 = 2 / 100"
  by (simp add: ex_failed_cycle_def ex_good_cycle_def ex_side6_def ex_motion_state_def
        setup_motion_def loop_motion_def sample_motion_def SAMPLE_INTERVAL_motion_def
        Let_def fuse_def simulate_third_def next_angle_offset_def atan2_def alpha_def
        split_beta)

text \<open>
  What one fusion step writes, as the code computes it (the sum of squares in 16 bits).
\<close>

lemma fuse_pitch_code:
  "i < length (pitch st) \<Longrightarrow>
   pitch (fuse i m st) ! j =
     (if j = i
      then alpha * (pitch st ! i + real_of_int (sint (gy m)) / 131 * (1 / 100)) +
           (1 - alpha) *
             (atan2 (real_of_int (sint (ay m)))
                (sqrt (real_of_int (sint (ax m * ax m + az m * az m)))) * 180 / pi)
      else pitch st ! j)"
  by (simp add: fuse_def Let_def SAMPLE_INTERVAL_motion_def nth_list_update)

lemma fuse_roll_code:
  "i < length (roll st) \<Longrightarrow>
   roll (fuse i m st) ! j =
     (if j = i
      then alpha * (roll st ! i + real_of_int (sint (gx m)) / 131 * (1 / 100)) +
           (1 - alpha) *
             (atan2 (real_of_int (sint (- ax m))) (real_of_int (sint (az m))) * 180 / pi)
      else roll st ! j)"
  by (simp add: fuse_def Let_def SAMPLE_INTERVAL_motion_def nth_list_update)

lemma simulate_third_real_modules:
  "j < 2 \<Longrightarrow>
   pitch (simulate_third st) ! j = pitch st ! j \<and>
   roll (simulate_third st) ! j = roll st ! j \<and>
   yaw (simulate_third st) ! j = yaw st ! j"
  by (simp add: simulate_third_def Let_def)

text \<open>
  Claim C2, amended. In every fusion cycle the fusion step runs for both real modules on
  the six values that \<open>getMotion6\<close> left in the locals, whether or not the bus transaction
  completed. For each real module the cycle writes
  \<open>pitch = alpha * (prevPitch + gy / 131 * 0.01) + (1 - alpha) * accelPitch\<close>,
  \<open>roll = alpha * (prevRoll + gx / 131 * 0.01) + (1 - alpha) * accelRoll\<close> and
  \<open>yaw = prevYaw + gz / 131 * 0.01\<close>, where \<open>accelPitch\<close> and \<open>accelRoll\<close> are the
  angles the code computes from those values (pitch stated where the 16-bit sum
  \<open>ax * ax + az * az\<close> is not negative, so that its square root is a number). The result
  of the pass is the same for any outcome of the transactions. No previous estimate is
  held and no default is substituted.
\<close>

theorem C2_fusion_runs_regardless:
  assumes "SAMPLE_INTERVAL_motion \<le> millis inp - lastSampleTime st"
    and "length (pitch st) = 3" and "length (roll st) = 3" and "length (yaw st) = 3"
    and "i < 2"
  shows "loop_motion (set_completed c inp) st = loop_motion inp st \<and>
         (0 \<le> sint (ax (getMotion6 inp i) * ax (getMotion6 inp i) +
                    az (getMotion6 inp i) * az (getMotion6 inp i)) \<longrightarrow>
          pitch (fst (loop_motion inp st)) ! i =
            alpha * (pitch st ! i + real_of_int (sint (gy (getMotion6 inp i))) / 131 * (1 / 100)) +
            (1 - alpha) *
              (atan2 (real_of_int (sint (ay (getMotion6 inp i))))
                 (sqrt (real_of_int (sint (ax (getMotion6 inp i) * ax (getMotion6 inp i) +
                                           az (getMotion6 inp i) * az (getMotion6 inp i)))))
               * 180 / pi)) \<and>
         roll (fst (loop_motion inp st)) ! i =
           alpha * (roll st ! i + real_of_int (sint (gx (getMotion6 inp i))) / 131 * (1 / 100)) +
           (1 - alpha) *
             (atan2 (real_of_int (sint (- ax (getMotion6 inp i))))
                (real_of_int (sint (az (getMotion6 inp i)))) * 180 / pi) \<and>
         yaw (fst (loop_motion inp st)) ! i =
           yaw st ! i + real_of_int (sint (gz (getMotion6 inp i))) / 131 * (1 / 100)"
proof -
  have same: "loop_motion (set_completed c inp) st = loop_motion inp st"
    by (simp add: loop_motion_def sample_motion_def set_completed_def fuse_completed Let_def)
  let ?st0 = "st\<lparr>lastSampleTime := millis inp\<rparr>"
  let ?st1 = "fuse 0 (getMotion6 inp 0) ?st0"
  let ?st2 = "fuse 1 (getMotion6 inp 1) ?st1"
  have st': "fst (loop_motion inp st) = simulate_third ?st2"
    by (simp add: loop_motion_state sample_motion_due [OF assms(1)])
  have len0: "0 < length (pitch ?st0)" "0 < length (roll ?st0)" "0 < length (yaw ?st0)"
    using assms(2-4) by simp_all
  have len1: "1 < length (pitch ?st1)" "1 < length (roll ?st1)" "1 < length (yaw ?st1)"
    using assms(2-4) by (simp_all add: fuse_lengths)
  from assms(5) have "i = 0 \<or> i = 1" by auto
  then have
    "pitch ?st2 ! i =
       alpha * (pitch st ! i + real_of_int (sint (gy (getMotion6 inp i))) / 131 * (1 / 100)) +
       (1 - alpha) *
         (atan2 (real_of_int (sint (ay (getMotion6 inp i))))
            (sqrt (real_of_int (sint (ax (getMotion6 inp i) * ax (getMotion6 inp i) +
                                      az (getMotion6 inp i) * az (getMotion6 inp i)))))
          * 180 / pi)"
    "roll ?st2 ! i =
       alpha * (roll st ! i + real_of_int (sint (gx (getMotion6 inp i))) / 131 * (1 / 100)) +
       (1 - alpha) *
         (atan2 (real_of_int (sint (- ax (getMotion6 inp i))))
            (real_of_int (sint (az (getMotion6 inp i)))) * 180 / pi)"
    "yaw ?st2 ! i =
       yaw st ! i + real_of_int (sint (gz (getMotion6 inp i))) / 131 * (1 / 100)"
    using fuse_pitch_code [OF len1(1), where j = i and m = "getMotion6 inp 1"]
      fuse_pitch_code [OF len0(1), where j = i and m = "getMotion6 inp 0"]
      fuse_roll_code [OF len1(2), where j = i and m = "getMotion6 inp 1"]
      fuse_roll_code [OF len0(2), where j = i and m = "getMotion6 inp 0"]
      fuse_yaw [OF len1(3), where j = i and m = "getMotion6 inp 1"]
      fuse_yaw [OF len0(3), where j = i and m = "getMotion6 inp 0"]
    by auto
  with same simulate_third_real_modules [OF assms(5), of ?st2] show ?thesis
    unfolding st' by simp
qed

theorem C2_fusion_runs_regardless_witness:
  "\<not> completed (getMotion6 ex_failed_cycle 0) \<and>
   SAMPLE_INTERVAL_motion \<le> millis ex_failed_cycle - lastSampleTime ex_motion_state \<and>
   length (pitch ex_motion_state) = 3 \<and> length (roll ex_motion_state) = 3 \<and>
   length (yaw ex_motion_state) = 3 \<and>
   sint (ax (getMotion6 ex_failed_cycle 0) * ax (getMotion6 ex_failed_cycle 0) +
         az (getMotion6 ex_failed_cycle 0) * az (getMotion6 ex_failed_cycle 0)) = 0 \<and>
   loop_motion (set_completed (\<lambda>i. True) ex_failed_cycle) ex_motion_state =
     loop_motion ex_failed_cycle ex_motion_state \<and>
   pitch (fst (loop_motion ex_failed_cycle ex_motion_state)) ! 0 = 9 / 5 \<and>
   roll (fst (loop_motion ex_failed_cycle ex_motion_state)) ! 0 = 0 \<and>
   yaw (fst (loop_motion ex_failed_cycle ex_motion_state)) ! 0 = 1 / 100"
proof -
  have h: "SAMPLE_INTERVAL_motion \<le> millis ex_failed_cycle - lastSampleTime ex_motion_state"
    "length (pitch ex_motion_state) = 3" "length (roll ex_motion_state) = 3"
    "length (yaw ex_motion_state) = 3" "(0::nat) < 2"
    by (simp_all add: SAMPLE_INTERVAL_motion_def ex_failed_cycle_def ex_motion_state_def
          setup_motion_def)
  have v: "getMotion6 ex_failed_cycle 0 = ex_side6 False"
    "pitch ex_motion_state ! 0 = 0" "roll ex_motion_state ! 0 = 0" "yaw ex_motion_state ! 0 = 0"
    by (simp_all add: ex_failed_cycle_def ex_motion_state_def setup_motion_def)
  have w: "sint (ax (ex_side6 False) * ax (ex_side6 False) +
                 az (ex_side6 False) * az (ex_side6 False)) = 0"
    "sint (ay (ex_side6 False)) = 16384" "sint (- ax (ex_side6 False)) = 0"
    "sint (az (ex_side6 False)) = 0" "sint (gx (ex_side6 False)) = 0"
    "sint (gy (ex_side6 False)) = 0" "sint (gz (ex_side6 False)) = 131"
    "\<not> completed (ex_side6 False)"
    by (simp_all add: ex_side6_def)
  from C2_fusion_runs_regardless [OF h, of "\<lambda>i. True"] h w(8)
  show ?thesis
    unfolding v w(1-7) by (simp add: atan2_def alpha_def)
qed

section \<open>Motion node: the simulated third sensor\<close>

lemma simulate_third_values:
  assumes "length (pitch st) = 3" and "length (roll st) = 3" and "length (yaw st) = 3"
  shows "angle_offset (simulate_third st) = next_angle_offset (angle_offset st) \<and>
         pitch (simulate_third st) ! 1 = pitch st ! 1 \<and>
         roll (simulate_third st) ! 1 = roll st ! 1 \<and>
         yaw (simulate_third st) ! 1 = yaw st ! 1 \<and>
         pitch (simulate_third st) ! 2 = pitch st ! 1 + next_angle_offset (angle_offset st) \<and>
         roll (simulate_third st) ! 2 = roll st ! 1 \<and>
         yaw (simulate_third st) ! 2 = yaw st ! 1"
  using assms by (simp add: simulate_third_def Let_def)

lemma fuse_angle_offset: "angle_offset (fuse i m st) = angle_offset st"
  by (simp add: fuse_def Let_def)

text \<open>
  The offset changes only in a sampling pass, by one step of the counter. So after a run
  it is the counter stepped once per record of the run, whatever the sensors read and
  whatever commands arrived.
\<close>

lemma loop_motion_angle_offset:
  "angle_offset (fst (loop_motion inp st)) =
     (if SAMPLE_INTERVAL_motion \<le> millis inp - lastSampleTime st
      then next_angle_offset (angle_offset st) else angle_offset st)"
  by (simp add: loop_motion_state sample_motion_def Let_def simulate_third_def
        fuse_angle_offset)

lemma run_motion_angle_offset:
  "angle_offset (fst (run_motion inps st)) =
     (next_angle_offset ^^ length (record_times (snd (run_motion inps st)))) (angle_offset st)"
proof (induction inps arbitrary: st)
  case Nil
  show ?case by (simp add: record_times_def map_filter_def)
next
  case (Cons inp inps)
  note r = run_motion_Cons [of inp inps st]
  note t = loop_motion_tick [of inp st]
  from Cons.IH [of "fst (loop_motion inp st)"] t show ?case
    unfolding r
    by (cases "SAMPLE_INTERVAL_motion \<le> millis inp - lastSampleTime st")
      (simp_all add: record_times_append loop_motion_angle_offset funpow_swap1)
qed

lemma setup_motion_no_record: "record_times (snd (setup_motion testConnection)) = []"
  by (simp add: setup_motion_def calibrateSensors_def setup_sensor_def record_times_def
        map_filter_def)

lemma boot_motion_angle_offset:
  "angle_offset (fst (boot_motion testConnection inps)) =
     (next_angle_offset ^^ length (record_times (snd (boot_motion testConnection inps)))) 0"
proof -
  have "angle_offset (fst (setup_motion testConnection)) = 0"
    by (simp add: setup_motion_def)
  with run_motion_angle_offset [of inps "fst (setup_motion testConnection)"] show ?thesis
    by (simp add: boot_motion_def split_beta record_times_append setup_motion_no_record)
qed

text \<open>
  The counter stays between 0 and 30: a step from a value in that range either adds 0.01
  without passing 30 or returns to 0.
\<close>

lemma next_angle_offset_range:
  "0 \<le> off \<Longrightarrow> 0 \<le> next_angle_offset off \<and> next_angle_offset off \<le> 30"
  by (simp add: next_angle_offset_def Let_def)

lemma angle_offset_iterate_range:
  "0 \<le> (next_angle_offset ^^ n) 0 \<and> (next_angle_offset ^^ n) 0 \<le> 30"
  by (induction n) (simp_all add: next_angle_offset_range)

text \<open>
  In the exact arithmetic of the model the counter is back at 0 after 3001 steps. (The
  device adds in single precision, where rounding changes the number of steps between two
  resets; the statements of claim C7 below do not depend on that number.)
\<close>

lemma next_angle_offset_iterate:
  "(next_angle_offset ^^ n) 0 = real (n mod 3001) / 100"
proof (induction n)
  case 0
  show ?case by simp
next
  case (Suc n)
  show ?case
  proof (cases "n mod 3001 = 3000")
    case True
    then have "Suc n mod 3001 = 0" by (simp add: mod_Suc)
    with True Suc show ?thesis by (simp add: next_angle_offset_def)
  next
    case False
    have "n mod 3001 < 3001" by simp
    with False have lt: "n mod 3001 < 3000" by linarith
    then have s: "Suc n mod 3001 = Suc (n mod 3001)" by (simp add: mod_Suc)
    from lt have "real (n mod 3001) < 3000" by simp
    then have "\<not> 30 < real (n mod 3001) / 100 + 1 / 100" by simp
    with Suc s show ?thesis
      by (simp add: next_angle_offset_def Let_def add_divide_distrib)
  qed
qed

lemma angle_offset_periodic:
  "\<exists>p>0. \<forall>n. (next_angle_offset ^^ (n + p)) 0 = (next_angle_offset ^^ n) 0"
  by (rule exI [of _ 3001]) (simp add: next_angle_offset_iterate)

text \<open>
  Claim C7. In every sampling pass of the motion node the third module is synthesised
  from the second one as just updated: its pitch is the second module's pitch plus the
  offset, its roll and yaw are the second module's. In that pass the offset grows by
  0.01, or returns to 0 once the sum exceeds 30. After boot the offset is determined by
  the number of records emitted so far alone, it stays between 0 and 30, and as a
  function of that number it is periodic: a sawtooth that no sensor reading enters.
\<close>

theorem C7_simulated_third_sensor:
  assumes "SAMPLE_INTERVAL_motion \<le> millis inp - lastSampleTime st"
    and "length (pitch st) = 3" and "length (roll st) = 3" and "length (yaw st) = 3"
  shows "angle_offset (fst (loop_motion inp st)) =
           (if 30 < angle_offset st + 1 / 100 then 0 else angle_offset st + 1 / 100) \<and>
         pitch (fst (loop_motion inp st)) ! 2 =
           pitch (fst (loop_motion inp st)) ! 1 + angle_offset (fst (loop_motion inp st)) \<and>
         roll (fst (loop_motion inp st)) ! 2 = roll (fst (loop_motion inp st)) ! 1 \<and>
         yaw (fst (loop_motion inp st)) ! 2 = yaw (fst (loop_motion inp st)) ! 1 \<and>
         0 \<le> angle_offset (fst (boot_motion tc1 inps1)) \<and>
         angle_offset (fst (boot_motion tc1 inps1)) \<le> 30 \<and>
         (length (record_times (snd (boot_motion tc2 inps2))) =
            length (record_times (snd (boot_motion tc1 inps1))) \<longrightarrow>
          angle_offset (fst (boot_motion tc2 inps2)) = angle_offset (fst (boot_motion tc1 inps1))) \<and>
         (\<exists>p>0. \<forall>ta inpsa tb inpsb.
            length (record_times (snd (boot_motion tb inpsb))) =
              length (record_times (snd (boot_motion ta inpsa))) + p \<longrightarrow>
            angle_offset (fst (boot_motion tb inpsb)) = angle_offset (fst (boot_motion ta inpsa)))"
proof -
  let ?st1 = "fuse 1 (getMotion6 inp 1)
                (fuse 0 (getMotion6 inp 0) (st\<lparr>lastSampleTime := millis inp\<rparr>))"
  have st': "fst (loop_motion inp st) = simulate_third ?st1"
    by (simp add: loop_motion_state sample_motion_due [OF assms(1)])
  have len: "length (pitch ?st1) = 3" "length (roll ?st1) = 3" "length (yaw ?st1) = 3"
    using assms(2-4) by (simp_all add: fuse_lengths)
  have off: "angle_offset ?st1 = angle_offset st"
    by (simp add: fuse_angle_offset)
  from simulate_third_values [OF len] off have pass:
    "angle_offset (fst (loop_motion inp st)) =
       (if 30 < angle_offset st + 1 / 100 then 0 else angle_offset st + 1 / 100) \<and>
     pitch (fst (loop_motion inp st)) ! 2 =
       pitch (fst (loop_motion inp st)) ! 1 + angle_offset (fst (loop_motion inp st)) \<and>
     roll (fst (loop_motion inp st)) ! 2 = roll (fst (loop_motion inp st)) ! 1 \<and>
     yaw (fst (loop_motion inp st)) ! 2 = yaw (fst (loop_motion inp st)) ! 1"
    unfolding st' by (simp add: next_angle_offset_def Let_def)
  have range: "0 \<le> angle_offset (fst (boot_motion tc1 inps1)) \<and>
               angle_offset (fst (boot_motion tc1 inps1)) \<le> 30"
    by (simp add: boot_motion_angle_offset angle_offset_iterate_range)
  have count: "length (record_times (snd (boot_motion tc2 inps2))) =
                 length (record_times (snd (boot_motion tc1 inps1))) \<longrightarrow>
               angle_offset (fst (boot_motion tc2 inps2)) =
                 angle_offset (fst (boot_motion tc1 inps1))"
    by (simp add: boot_motion_angle_offset)
  from angle_offset_periodic obtain p where p: "0 < p"
    "\<forall>n. (next_angle_offset ^^ (n + p)) 0 = (next_angle_offset ^^ n) 0"
    by blast
  have "\<forall>ta inpsa tb inpsb.
          length (record_times (snd (boot_motion tb inpsb))) =
            length (record_times (snd (boot_motion ta inpsa))) + p \<longrightarrow>
          angle_offset (fst (boot_motion tb inpsb)) = angle_offset (fst (boot_motion ta inpsa))"
    using p(2) by (simp add: boot_motion_angle_offset)
  with p(1) have periodic:
    "\<exists>p>0. \<forall>ta inpsa tb inpsb.
        length (record_times (snd (boot_motion tb inpsb))) =
          length (record_times (snd (boot_motion ta inpsa))) + p \<longrightarrow>
        angle_offset (fst (boot_motion tb inpsb)) = angle_offset (fst (boot_motion ta inpsa))"
    by blast
  from pass range count periodic show ?thesis by blast
qed

lemma boot_motion_records:
  "record_times (snd (boot_motion testConnection inps)) =
     record_times (snd (run_motion inps (fst (setup_motion testConnection))))"
  by (simp add: boot_motion_def split_beta record_times_append setup_motion_no_record)

lemma setup_motion_lastSampleTime: "lastSampleTime (fst (setup_motion testConnection)) = 0"
  by (simp add: setup_motion_def)

lemma ex_boot_one_record:
  "length (record_times (snd (boot_motion (\<lambda>i. True) [ex_good_cycle]))) = 1 \<and>
   length (record_times (snd (boot_motion (\<lambda>i. False) [ex_tilt_cycle]))) = 1"
  by (simp add: boot_motion_records run_motion_Cons record_times_append loop_motion_tick
        setup_motion_lastSampleTime SAMPLE_INTERVAL_motion_def ex_good_cycle_def
        ex_tilt_cycle_def record_times_def [of "[]"] del: run_motion.simps(2))

theorem C7_simulated_third_sensor_witness:
  "SAMPLE_INTERVAL_motion \<le> millis ex_good_cycle - lastSampleTime ex_motion_state \<and>
   length (pitch ex_motion_state) = 3 \<and> length (roll ex_motion_state) = 3 \<and>
   length (yaw ex_motion_state) = 3 \<and>
   angle_offset (fst (loop_motion ex_good_cycle ex_motion_state)) = 1 / 100 \<and>
   pitch (fst (loop_motion ex_good_cycle ex_motion_state)) ! 2 =
     pitch (fst (loop_motion ex_good_cycle ex_motion_state)) ! 1 + 1 / 100 \<and>
   length (record_times (snd (boot_motion (\<lambda>i. True) [ex_good_cycle]))) = 1 \<and>
   length (record_times (snd (boot_motion (\<lambda>i. False) [ex_tilt_cycle]))) = 1 \<and>
   angle_offset (fst (boot_motion (\<lambda>i. False) [ex_tilt_cycle])) =
     angle_offset (fst (boot_motion (\<lambda>i. True) [ex_good_cycle]))"
proof -
  have h: "SAMPLE_INTERVAL_motion \<le> millis ex_good_cycle - lastSampleTime ex_motion_state"
    "length (pitch ex_motion_state) = 3" "length (roll ex_motion_state) = 3"
    "length (yaw ex_motion_state) = 3" "angle_offset ex_motion_state = 0"
    by (simp_all add: SAMPLE_INTERVAL_motion_def ex_good_cycle_def ex_motion_state_def
          setup_motion_def)
  from C7_simulated_third_sensor [OF h(1-4), of "\<lambda>i. True" "[ex_good_cycle]"
      "\<lambda>i. False" "[ex_tilt_cycle]"] h ex_boot_one_record
  show ?thesis by simp
qed

section \<open>Motion node: boot\<close>

lemma setup_motion_frames:
  "snd (setup_motion testConnection) =
     [MOTION_ARDUINO_READY, setup_sensor testConnection 0, setup_sensor testConnection 1,
      CALIBRATING_SENSORS_START, CALIBRATING_SENSORS_COMPLETE]"
  by (simp add: setup_motion_def calibrateSensors_def)

lemma boot_motion_frames:
  "snd (boot_motion testConnection inps) =
     snd (setup_motion testConnection) @
     snd (run_motion inps (fst (setup_motion testConnection)))"
  by (simp add: boot_motion_def split_beta)

lemma setup_sensor_not_MOTION: "\<not> is_MOTION (setup_sensor testConnection i)"
  by (simp add: setup_sensor_def)

text \<open>
  Claim C10. On every boot the motion node prints its banner first, and \<open>setup\<close> ends
  with the calibration routine, which prints \<open>CALIBRATING_SENSORS,START\<close> and then
  \<open>CALIBRATING_SENSORS,COMPLETE\<close>. These are frames 0, 3 and 4 of the boot trace (frames
  1 and 2 report the two sensors), and every MOTION record comes later.
\<close>

theorem C10_calibration_before_first_record:
  "take 5 (snd (boot_motion testConnection inps)) =
     [MOTION_ARDUINO_READY, setup_sensor testConnection 0, setup_sensor testConnection 1,
      CALIBRATING_SENSORS_START, CALIBRATING_SENSORS_COMPLETE] \<and>
   (\<forall>k < length (snd (boot_motion testConnection inps)).
      is_MOTION (snd (boot_motion testConnection inps) ! k) \<longrightarrow> 4 < k)"
proof -
  let ?out = "snd (boot_motion testConnection inps)"
  have a: "take 5 ?out = snd (setup_motion testConnection)"
    by (simp add: boot_motion_frames setup_motion_frames)
  have "\<not> is_MOTION (?out ! k)" if "k \<le> 4" for k
  proof -
    from that have "k < 5" by simp
    moreover have "length (snd (setup_motion testConnection)) = 5"
      by (simp add: setup_motion_frames)
    ultimately have "?out ! k = snd (setup_motion testConnection) ! k"
      by (simp only: boot_motion_frames nth_append if_True)
    also from \<open>k < 5\<close> have "k \<in> {0, 1, 2, 3, 4}" by auto
    then have "\<not> is_MOTION (snd (setup_motion testConnection) ! k)"
      by (auto simp add: setup_motion_frames setup_sensor_not_MOTION)
    finally show ?thesis .
  qed
  then have "\<forall>k < length ?out. is_MOTION (?out ! k) \<longrightarrow> 4 < k"
    by (meson not_le)
  with a show ?thesis by (simp add: setup_motion_frames)
qed

theorem C10_calibration_before_first_record_witness:
  "snd (boot_motion (\<lambda>i. True) [ex_good_cycle]) ! 0 = MOTION_ARDUINO_READY \<and>
   snd (boot_motion (\<lambda>i. True) [ex_good_cycle]) ! 3 = CALIBRATING_SENSORS_START \<and>
   snd (boot_motion (\<lambda>i. True) [ex_good_cycle]) ! 4 = CALIBRATING_SENSORS_COMPLETE \<and>
   length (snd (boot_motion (\<lambda>i. True) [ex_good_cycle])) = 6 \<and>
   is_MOTION (snd (boot_motion (\<lambda>i. True) [ex_good_cycle]) ! 5) \<and>
   \<not> is_MOTION (snd (boot_motion (\<lambda>i. True) [ex_good_cycle]) ! 4)"
proof -
  let ?out = "snd (boot_motion (\<lambda>i. True) [ex_good_cycle])"
  have run: "snd (run_motion [ex_good_cycle] (fst (setup_motion (\<lambda>i. True)))) =
      [motion_record 10 (fst (loop_motion ex_good_cycle (fst (setup_motion (\<lambda>i. True)))))]"
    by (simp add: loop_motion_def sample_motion_def Let_def split_beta ex_good_cycle_def
          SAMPLE_INTERVAL_motion_def setup_motion_def)
  have len: "length ?out = 6" and five: "is_MOTION (?out ! 5)"
    by (simp_all add: boot_motion_frames setup_motion_frames run motion_record_def
          del: run_motion.simps)
  from C10_calibration_before_first_record [of "\<lambda>i. True" "[ex_good_cycle]"]
  have t: "take 5 ?out =
       [MOTION_ARDUINO_READY, setup_sensor (\<lambda>i. True) 0, setup_sensor (\<lambda>i. True) 1,
        CALIBRATING_SENSORS_START, CALIBRATING_SENSORS_COMPLETE]"
    and m: "\<forall>k < length ?out. is_MOTION (?out ! k) \<longrightarrow> 4 < k"
    by blast+
  have "?out ! 0 = take 5 ?out ! 0" "?out ! 3 = take 5 ?out ! 3" "?out ! 4 = take 5 ?out ! 4"
    by simp_all
  with t have "?out ! 0 = MOTION_ARDUINO_READY" "?out ! 3 = CALIBRATING_SENSORS_START"
    "?out ! 4 = CALIBRATING_SENSORS_COMPLETE"
    by simp_all
  moreover from m have "4 < length ?out \<longrightarrow> is_MOTION (?out ! 4) \<longrightarrow> (4::nat) < 4"
    by blast
  with len have "\<not> is_MOTION (?out ! 4)" by simp
  ultimately show ?thesis using len five by simp
qed

section \<open>Motion node: the complementary filter\<close>

text \<open>
  Where the 16-bit sum of squares does not overflow, and \<open>ax\<close> is not the most negative
  value, the fusion step computes the complementary filter on the sensor values.
\<close>

lemma signed_take_bit_15_id:
  fixes k :: int
  assumes "0 \<le> k" and "k < 32768"
  shows "signed_take_bit 15 k = k"
proof -
  from assms have "- (2 ^ 15) \<le> k" "k < 2 ^ 15" by simp_all
  then show ?thesis by (rule signed_take_bit_int_eq_self)
qed

lemma sint_sum_of_squares:
  fixes a b :: int16
  assumes "sint a * sint a + sint b * sint b < 32768"
  shows "sint (a * a + b * b) = sint a * sint a + sint b * sint b"
proof -
  have a0: "0 \<le> sint a * sint a" and b0: "0 \<le> sint b * sint b" by simp_all
  with assms have a1: "sint a * sint a < 32768" and b1: "sint b * sint b < 32768" by linarith+
  have "sint (a * a) = signed_take_bit 15 (sint a * sint a)"
    by (simp add: sint_word_ariths)
  with a0 a1 have sa: "sint (a * a) = sint a * sint a"
    by (simp add: signed_take_bit_15_id)
  have "sint (b * b) = signed_take_bit 15 (sint b * sint b)"
    by (simp add: sint_word_ariths)
  with b0 b1 have sb: "sint (b * b) = sint b * sint b"
    by (simp add: signed_take_bit_15_id)
  have "sint (a * a + b * b) = signed_take_bit 15 (sint (a * a) + sint (b * b))"
    by (simp add: sint_word_ariths)
  with a0 b0 assms show ?thesis
    unfolding sa sb by (simp add: signed_take_bit_15_id)
qed

lemma sint_minus:
  fixes a :: int16
  assumes "sint a \<noteq> - 32768"
  shows "sint (- a) = - sint a"
proof -
  have "- 32768 \<le> sint a" "sint a < 32768"
    using sint_ge [of a] sint_lt [of a] by simp_all
  with assms have "- 32768 \<le> - sint a" "- sint a < 32768" by linarith+
  then have "signed_take_bit 15 (- sint a) = - sint a"
    by (intro signed_take_bit_int_eq_self) simp_all
  then show ?thesis by (simp add: sint_word_ariths)
qed

lemma fuse_pitch:
  assumes "i < length (pitch st)"
    and "sint (ax m) * sint (ax m) + sint (az m) * sint (az m) < 32768"
  shows "pitch (fuse i m st) ! i =
           alpha * (pitch st ! i + real_of_int (sint (gy m)) / 131 * (1 / 100)) +
           (1 - alpha) *
             (atan2 (real_of_int (sint (ay m)))
                (sqrt ((real_of_int (sint (ax m)))\<^sup>2 + (real_of_int (sint (az m)))\<^sup>2))
              * 180 / pi)"
  using assms(1)
  by (simp add: fuse_def Let_def SAMPLE_INTERVAL_motion_def
        sint_sum_of_squares [OF assms(2)] power2_eq_square)

lemma fuse_roll:
  assumes "i < length (roll st)" and "sint (ax m) \<noteq> - 32768"
  shows "roll (fuse i m st) ! i =
           alpha * (roll st ! i + real_of_int (sint (gx m)) / 131 * (1 / 100)) +
           (1 - alpha) *
             (atan2 (- real_of_int (sint (ax m))) (real_of_int (sint (az m))) * 180 / pi)"
  using assms(1)
  by (simp add: fuse_def Let_def SAMPLE_INTERVAL_motion_def sint_minus [OF assms(2)])

lemma loop_motion_lengths:
  assumes "length (pitch st) = 3" and "length (roll st) = 3" and "length (yaw st) = 3"
  shows "length (pitch (fst (loop_motion inp st))) = 3 \<and>
         length (roll (fst (loop_motion inp st))) = 3 \<and>
         length (yaw (fst (loop_motion inp st))) = 3"
  using assms
  by (simp add: loop_motion_state sample_motion_def Let_def simulate_third_def fuse_lengths)

lemma boot_motion_lengths:
  "length (pitch (fst (boot_motion testConnection inps))) = 3 \<and>
   length (roll (fst (boot_motion testConnection inps))) = 3 \<and>
   length (yaw (fst (boot_motion testConnection inps))) = 3"
proof -
  have "length (pitch (fst (run_motion inps st))) = 3 \<and>
        length (roll (fst (run_motion inps st))) = 3 \<and>
        length (yaw (fst (run_motion inps st))) = 3"
    if "length (pitch st) = 3" and "length (roll st) = 3" and "length (yaw st) = 3" for st
    using that
  proof (induction inps arbitrary: st)
    case Nil
    then show ?case by simp
  next
    case (Cons inp inps)
    from loop_motion_lengths [OF Cons.prems, of inp] Cons.IH [of "fst (loop_motion inp st)"]
    show ?case unfolding run_motion_Cons by simp
  qed
  from this [of "fst (setup_motion testConnection)"] show ?thesis
    by (simp add: boot_motion_def split_beta setup_motion_def)
qed

text \<open>
  Claim C4 gives the new pitch as
  \<open>alpha * (prevPitch + gy / 131 * dt) + (1 - alpha) * atan2 (ay, sqrt (ax\<^sup>2 + az\<^sup>2)) * 180 / pi\<close>.
  On the code it is not so once \<open>ax * ax + az * az\<close> leaves the 16-bit range: for a
  sensor that reads \<open>ax = 0\<close>, \<open>ay = az = 16384\<close> (one g along y and along z), with
  no rotation and a previous pitch of 0, \<open>az * az\<close> wraps to 0, the accelerometer pitch
  comes out as 90 degrees instead of 45, and the new pitch is 1.8 where the claim's
  formula gives 0.9.
\<close>

theorem C4_pitch_overflow:
  "pitch ex_motion_state ! 0 = 0 \<and>
   getMotion6 ex_tilt_cycle 0 = ex_tilt6 \<and>
   sint (ax ex_tilt6) = 0 \<and> sint (ay ex_tilt6) = 16384 \<and> sint (az ex_tilt6) = 16384 \<and>
   sint (gy ex_tilt6) = 0 \<and>
   pitch (fst (loop_motion ex_tilt_cycle ex_motion_state)) ! 0 = 9 / 5 \<and>
   alpha * (0 + 0 / 131 * (1 / 100)) +
     (1 - alpha) * (atan2 16384 (sqrt (0\<^sup>2 + 16384\<^sup>2)) * 180 / pi) = 9 / 10"
  by (simp add: ex_tilt_cycle_def ex_tilt6_def ex_motion_state_def setup_motion_def
        loop_motion_def sample_motion_def SAMPLE_INTERVAL_motion_def Let_def fuse_def
        simulate_third_def next_angle_offset_def atan2_def alpha_def split_beta arctan_one)

end
